theory Spec2Isabelle
  imports Main "HOL-Library.Word"
begin

section \<open>Exceptions and effectful code\<close>

text \<open>
  The TypeScript sources throw and catch exceptions, read the clock, write to a logger and
  call a storage adapter. A piece of effectful code over a state \<open>'s\<close> is modelled
  as a function from the state to an outcome and the new state; the outcome is \<open>Inl e\<close>
  when the code throws \<open>e\<close> and \<open>Inr v\<close> when it returns \<open>v\<close>.
\<close>

datatype exn =
    APIError string string string
  | RangeError string
  | Error string

type_synonym ('a, 's) prog = "'s \<Rightarrow> (exn + 'a) \<times> 's"

text \<open>\<open>try { body } catch (e) { handler e }\<close>: the handler runs in the state the body left.\<close>

definition try_catch :: "('a, 's) prog \<Rightarrow> (exn \<Rightarrow> ('a, 's) prog) \<Rightarrow> ('a, 's) prog" where
  "try_catch body handler s =
     (case body s of
        (Inl e, s') \<Rightarrow> handler e s'
      | (Inr v, s') \<Rightarrow> (Inr v, s'))"

text \<open>Sequencing: the second part runs only when the first returned.\<close>

definition bind_prog :: "('a, 's) prog \<Rightarrow> ('a \<Rightarrow> ('b, 's) prog) \<Rightarrow> ('b, 's) prog" where
  "bind_prog m f s =
     (case m s of
        (Inl e, s') \<Rightarrow> (Inl e, s')
      | (Inr v, s') \<Rightarrow> f v s')"

definition return_prog :: "'a \<Rightarrow> ('a, 's) prog" where
  "return_prog v s = (Inr v, s)"

definition throw_prog :: "exn \<Rightarrow> ('a, 's) prog" where
  "throw_prog e s = (Inl e, s)"


section \<open>Client: the native module wrapper\<close>

text \<open>
  \<open>client/native-module\<close> keeps the module-level variable \<open>cachedIsSupported\<close>
  (\<open>boolean | null\<close>, initially \<open>null\<close>). The state of the module also records how often
  \<open>ExpoPasskeyModule.isPasskeySupported\<close> has been invoked and what was written with
  \<open>console.error\<close>. The native module is a parameter: \<open>native k\<close> is the outcome of its
  invocation number \<open>k\<close> (counted from 0), a boolean or a thrown exception.
\<close>

record module_state =
  cachedIsSupported :: "bool option"
  native_calls :: nat
  console_errors :: "exn list"

definition module_init :: module_state where
  "module_init = \<lparr>cachedIsSupported = None, native_calls = 0, console_errors = []\<rparr>"

definition ExpoPasskeyModule_isPasskeySupported ::
  "(nat \<Rightarrow> exn + bool) \<Rightarrow> (bool, module_state) prog" where
  "ExpoPasskeyModule_isPasskeySupported native s =
     (native (native_calls s), s\<lparr>native_calls := Suc (native_calls s)\<rparr>)"

definition console_error :: "exn \<Rightarrow> (unit, module_state) prog" where
  "console_error e s = (Inr (), s\<lparr>console_errors := console_errors s @ [e]\<rparr>)"

definition set_cachedIsSupported :: "bool \<Rightarrow> (unit, module_state) prog" where
  "set_cachedIsSupported b s = (Inr (), s\<lparr>cachedIsSupported := Some b\<rparr>)"

definition isNativePasskeySupported ::
  "(nat \<Rightarrow> exn + bool) \<Rightarrow> (bool, module_state) prog" where
  "isNativePasskeySupported native s =
     (case cachedIsSupported s of
        Some b \<Rightarrow> return_prog b s
      | None \<Rightarrow>
          try_catch
            (bind_prog (ExpoPasskeyModule_isPasskeySupported native) (\<lambda>b.
             bind_prog (set_cachedIsSupported b) (\<lambda>_.
             return_prog b)))
            (\<lambda>error.
             bind_prog (console_error error) (\<lambda>_.
             bind_prog (set_cachedIsSupported False) (\<lambda>_.
             return_prog False)))
            s)"

text \<open>\<open>n\<close> calls one after the other in one process; the outcomes are collected in order.\<close>

fun call_sequence ::
  "(nat \<Rightarrow> exn + bool) \<Rightarrow> nat \<Rightarrow> module_state \<Rightarrow> (exn + bool) list \<times> module_state" where
  "call_sequence native 0 s = ([], s)"
| "call_sequence native (Suc n) s =
     (case isNativePasskeySupported native s of
        (r, s') \<Rightarrow> (case call_sequence native n s' of (rs, s'') \<Rightarrow> (r # rs, s'')))"

text \<open>What the first call answers: the native module's answer, or \<open>false\<close> when it threw.\<close>

definition first_answer :: "(nat \<Rightarrow> exn + bool) \<Rightarrow> bool" where
  "first_answer native = (case native 0 of Inr b \<Rightarrow> b | Inl e \<Rightarrow> False)"

definition first_errors :: "(nat \<Rightarrow> exn + bool) \<Rightarrow> exn list" where
  "first_errors native = (case native 0 of Inr b \<Rightarrow> [] | Inl e \<Rightarrow> [e])"


section \<open>Dates\<close>

text \<open>
  A JavaScript \<open>Date\<close> holds a time value: an integral number of milliseconds since the
  epoch of magnitude at most 8.64e15, or \<open>NaN\<close> (the invalid date, here \<open>None\<close>).
  \<open>TimeClip\<close> is the operation of the language standard that every constructor and
  setter applies. \<open>toISOString\<close> throws a \<open>RangeError\<close> on the invalid date. The
  ISO-8601 text of a valid date is represented by the instant it denotes (\<open>IsoTime t\<close>
  below): the rendering is injective, so nothing is lost.
\<close>

type_synonym Date = "int option"

definition maxTimeValue :: int where
  "maxTimeValue = 8640000000000000"

definition TimeClip :: "int \<Rightarrow> Date" where
  "TimeClip t = (if \<bar>t\<bar> \<le> maxTimeValue then Some t else None)"

definition msPerDay :: int where
  "msPerDay = 24 * 60 * 60 * 1000"

text \<open>
  Local time. The time zone of the process is a function \<open>tza\<close>, the \<open>LocalTZA\<close> of the
  language standard: \<open>tza t True\<close> is the offset of local time from UTC, in milliseconds,
  at the UTC time value \<open>t\<close>, and \<open>tza t False\<close> the offset to take for the local time
  value \<open>t\<close>. \<open>LocalTime\<close> and \<open>UTC_of_local\<close> are the standard's conversions.
\<close>

type_synonym time_zone = "int \<Rightarrow> bool \<Rightarrow> int"

definition LocalTime :: "time_zone \<Rightarrow> int \<Rightarrow> int" where
  "LocalTime tza t = t + tza t True"

definition UTC_of_local :: "time_zone \<Rightarrow> int \<Rightarrow> int" where
  "UTC_of_local tza t = t - tza t False"

text \<open>
  \<open>d.setDate(d.getDate() - n)\<close>, for an integer \<open>n\<close> as the configuration declares.
  By the standard, \<open>setDate\<close> takes the local time of the date, replaces its day of the
  month and keeps its time within the day, and converts back to UTC. A day of the month
  smaller by \<open>n\<close> is the day number smaller by \<open>n\<close>, so the new local time value is the
  old one minus \<open>n\<close> times \<open>msPerDay\<close>: \<open>n\<close> calendar days of local time, which are not
  \<open>n\<close> times 24 hours when the zone's offset changed in between.
\<close>

definition setDate_minus :: "time_zone \<Rightarrow> Date \<Rightarrow> int \<Rightarrow> Date" where
  "setDate_minus tza d n =
     (case d of
        None \<Rightarrow> None
      | Some t \<Rightarrow> TimeClip (UTC_of_local tza (LocalTime tza t - n * msPerDay)))"

text \<open>\<open>new Date(d.getTime() + ms)\<close>.\<close>

definition Date_plus_ms :: "Date \<Rightarrow> int \<Rightarrow> Date" where
  "Date_plus_ms d ms = (case d of None \<Rightarrow> None | Some t \<Rightarrow> TimeClip (t + ms))"

definition toISOString :: "Date \<Rightarrow> (int, 's) prog" where
  "toISOString d =
     (case d of
        None \<Rightarrow> throw_prog (RangeError ''Invalid time value'')
      | Some t \<Rightarrow> return_prog t)"


section \<open>The storage adapter, the logger and the server's world\<close>

text \<open>
  The adapter of the authentication framework is generic: a call names a model (a table),
  gives \<open>where\<close> clauses (field, operator, value) and field values to write. Field
  values are strings, ISO-8601 timestamps, booleans or \<open>null\<close>.
\<close>

datatype fvalue = Str string | IsoTime int | Bool bool | Null

datatype operator = Op_eq | Op_lt

datatype where_clause = Where string operator fvalue

type_synonym row = "string \<rightharpoonup> fvalue"

record updateMany_args =
  um_model :: string
  um_where :: "where_clause list"
  um_update :: "(string \<times> fvalue) list"

record findOne_args =
  fo_model :: string
  fo_where :: "where_clause list"

record create_args =
  cr_model :: string
  cr_data :: "(string \<times> fvalue) list"
  forceAllowId :: bool

datatype adapter_call =
    Call_updateMany updateMany_args
  | Call_findOne findOne_args
  | Call_create create_args

text \<open>
  An adapter over a database \<open>'db\<close>: each method may throw (its promise may reject) and
  may change the database. \<open>updateMany\<close> is optional, since the cleanup job tests
  \<open>typeof ctx.adapter.updateMany !== "function"\<close>.
\<close>

record 'db adapter =
  updateMany :: "(updateMany_args \<Rightarrow> 'db \<Rightarrow> (exn + nat) \<times> 'db) option"
  findOne :: "findOne_args \<Rightarrow> 'db \<Rightarrow> (exn + row option) \<times> 'db"
  create :: "create_args \<Rightarrow> 'db \<Rightarrow> (exn + row) \<times> 'db"

datatype log_arg = Arg_exn exn | Arg_num nat | Arg_str string | Arg_bool bool

datatype log_entry =
    Log_debug string "(string \<times> log_arg) list"
  | Log_info string "(string \<times> log_arg) list"
  | Log_warn string "(string \<times> log_arg) list"
  | Log_error string "(string \<times> log_arg) list"

text \<open>
  The world a server function runs in: the database behind the adapter, the system clock
  (\<open>clock k\<close> is what reading number \<open>k\<close> gives, \<open>clock_reads\<close> counts the readings so
  far), the entropy source of \<open>crypto.randomBytes\<close> (a stream of bytes and the number
  consumed), the identifiers \<open>generateId\<close> hands out, \<open>process.env.NODE_ENV\<close>, the
  time zone of the process, and
  what the code did to the outside: the log, the adapter calls in order, and the periods
  of the intervals registered with \<open>setInterval\<close>.
\<close>

record 'db world =
  db :: 'db
  clock :: "nat \<Rightarrow> int"
  clock_reads :: nat
  entropy :: "nat \<Rightarrow> 8 word"
  entropy_used :: nat
  idgen :: "nat \<Rightarrow> string"
  ids_made :: nat
  NODE_ENV :: "string option"
  LocalTZA :: time_zone
  logs :: "log_entry list"
  calls :: "adapter_call list"
  intervals :: "int list"

definition new_Date :: "(Date, 'db world) prog" where
  "new_Date w = (Inr (TimeClip (clock w (clock_reads w))), w\<lparr>clock_reads := Suc (clock_reads w)\<rparr>)"

definition logger :: "log_entry \<Rightarrow> (unit, 'db world) prog" where
  "logger e w = (Inr (), w\<lparr>logs := logs w @ [e]\<rparr>)"

definition call_updateMany ::
  "(updateMany_args \<Rightarrow> 'db \<Rightarrow> (exn + nat) \<times> 'db) \<Rightarrow> updateMany_args \<Rightarrow> (nat, 'db world) prog" where
  "call_updateMany f args w =
     (case f args (db w) of
        (r, db') \<Rightarrow> (r, w\<lparr>db := db', calls := calls w @ [Call_updateMany args]\<rparr>))"

definition call_findOne :: "'db adapter \<Rightarrow> findOne_args \<Rightarrow> (row option, 'db world) prog" where
  "call_findOne a args w =
     (case findOne a args (db w) of
        (r, db') \<Rightarrow> (r, w\<lparr>db := db', calls := calls w @ [Call_findOne args]\<rparr>))"

definition call_create :: "'db adapter \<Rightarrow> create_args \<Rightarrow> (row, 'db world) prog" where
  "call_create a args w =
     (case create a args (db w) of
        (r, db') \<Rightarrow> (r, w\<lparr>db := db', calls := calls w @ [Call_create args]\<rparr>))"

definition Date_setDate_minus :: "Date \<Rightarrow> int \<Rightarrow> (Date, 'db world) prog" where
  "Date_setDate_minus d n w = (Inr (setDate_minus (LocalTZA w) d n), w)"

definition setInterval :: "int \<Rightarrow> (nat, 'db world) prog" where
  "setInterval period w = (Inr (length (intervals w)), w\<lparr>intervals := intervals w @ [period]\<rparr>)"


section \<open>Server: the cleanup job (\<open>server/utils/cleanup.ts\<close>)\<close>

record CleanupOptions =
  inactiveDays :: "int option"
  disableInterval :: "bool option"

record 'db AuthContext =
  adapter :: "'db adapter option"

text \<open>What \<open>setupCleanupJob\<close> returns: nothing, \<open>null\<close>, or the handle of the interval.\<close>

datatype setup_result = Undefined | Null_result | Interval_handle nat

text \<open>
  \<open>performCleanup\<close> is the closure inside \<open>setupCleanupJob\<close>; it captures the context
  and \<open>inactiveDays\<close> (here \<open>inactiveDays_v\<close>, the option's value or its default). It
  is an \<open>async\<close> function: here it runs to its end where it is called, and a rejected
  promise is the outcome \<open>Inl\<close>. The logger's methods are taken to return.
\<close>

definition adapter_updateMany ::
  "'db AuthContext \<Rightarrow> (updateMany_args \<Rightarrow> 'db \<Rightarrow> (exn + nat) \<times> 'db) option" where
  "adapter_updateMany ctx = (case adapter ctx of None \<Rightarrow> None | Some a \<Rightarrow> updateMany a)"

definition cleanup_query :: "int \<Rightarrow> int \<Rightarrow> int \<Rightarrow> updateMany_args" where
  "cleanup_query inactiveCutoff revokedAt updatedAt =
     \<lparr>um_model = ''authPasskey'',
      um_where =
        [Where ''lastUsed'' Op_lt (IsoTime inactiveCutoff),
         Where ''status'' Op_eq (Str ''active'')],
      um_update =
        [(''status'', Str ''revoked''),
         (''revokedAt'', IsoTime revokedAt),
         (''revokedReason'', Str ''automatic_inactive''),
         (''updatedAt'', IsoTime updatedAt)]\<rparr>"

definition performCleanup :: "'db AuthContext \<Rightarrow> int \<Rightarrow> (unit, 'db world) prog" where
  "performCleanup ctx inactiveDays_v =
     (case adapter_updateMany ctx of
        None \<Rightarrow> logger (Log_warn ''Skipping cleanup: Database adapter not fully initialized'' [])
      | Some adapter_updateMany_fn \<Rightarrow>
          bind_prog new_Date (\<lambda>today.
          bind_prog (Date_setDate_minus today inactiveDays_v) (\<lambda>inactiveCutoff.
          try_catch
            (bind_prog (toISOString inactiveCutoff) (\<lambda>cutoff.
             bind_prog new_Date (\<lambda>d1.
             bind_prog (toISOString d1) (\<lambda>revokedAt.
             bind_prog new_Date (\<lambda>d2.
             bind_prog (toISOString d2) (\<lambda>updatedAt.
             bind_prog (call_updateMany adapter_updateMany_fn
                          (cleanup_query cutoff revokedAt updatedAt)) (\<lambda>result.
             (\<lambda>w. if NODE_ENV w \<noteq> Some ''production''
                  then logger (Log_info ''Cleaned up ${result} inactive passkeys''
                                 [(''result'', Arg_num result)]) w
                  else return_prog () w))))))))
            (\<lambda>error. logger (Log_error ''Cleanup job failed:'' [(''error'', Arg_exn error)])))))"

definition setupCleanupJob ::
  "'db AuthContext \<Rightarrow> CleanupOptions \<Rightarrow> (setup_result, 'db world) prog" where
  "setupCleanupJob ctx options =
     (let inactiveDays_v = (case inactiveDays options of None \<Rightarrow> 30 | Some d \<Rightarrow> d);
          disableInterval_v = (case disableInterval options of None \<Rightarrow> False | Some b \<Rightarrow> b)
      in
        if inactiveDays_v \<le> 0 then return_prog Undefined
        else if disableInterval_v then
          bind_prog
            (logger (Log_debug ''Cleanup interval disabled, skipping all cleanup operations'' []))
            (\<lambda>_. return_prog Null_result)
        else
          bind_prog
            (try_catch (performCleanup ctx inactiveDays_v)
               (\<lambda>err. logger (Log_error ''Failed to run initial cleanup:'' [(''err'', Arg_exn err)])))
            (\<lambda>_.
              if \<not> disableInterval_v then
                bind_prog (setInterval (24 * 60 * 60 * 1000)) (\<lambda>h. return_prog (Interval_handle h))
              else return_prog Null_result))"

text \<open>
  The interval registered by \<open>setupCleanupJob\<close> calls \<open>performCleanup\<close> at each period;
  \<open>interval_fires n\<close> is \<open>n\<close> firings in a row. A firing that threw would end the run
  with that exception.
\<close>

fun interval_fires :: "'db AuthContext \<Rightarrow> int \<Rightarrow> nat \<Rightarrow> (unit, 'db world) prog" where
  "interval_fires ctx inactiveDays_v 0 = return_prog ()"
| "interval_fires ctx inactiveDays_v (Suc n) =
     bind_prog (performCleanup ctx inactiveDays_v) (\<lambda>_. interval_fires ctx inactiveDays_v n)"

text \<open>
  A reference adapter over tables held in memory, for the effect of a query on stored
  records: a database maps a model name to its rows. A clause \<open>eq\<close> holds when the field
  has that value; a clause \<open>lt\<close> holds when field and value are both timestamps and the
  field is the earlier one (an absent or \<open>null\<close> field satisfies no clause).
\<close>

type_synonym mem_db = "string \<Rightarrow> row list"

fun clause_holds :: "row \<Rightarrow> where_clause \<Rightarrow> bool" where
  "clause_holds r (Where f Op_eq v) = (r f = Some v)"
| "clause_holds r (Where f Op_lt v) =
     (case r f of
        Some (IsoTime a) \<Rightarrow> (case v of IsoTime b \<Rightarrow> a < b | _ \<Rightarrow> False)
      | _ \<Rightarrow> False)"

definition row_matches :: "where_clause list \<Rightarrow> row \<Rightarrow> bool" where
  "row_matches cs r = list_all (clause_holds r) cs"

fun write_fields :: "(string \<times> fvalue) list \<Rightarrow> row \<Rightarrow> row" where
  "write_fields [] r = r"
| "write_fields ((f, v) # fs) r = write_fields fs (r(f \<mapsto> v))"

definition mem_updateMany :: "updateMany_args \<Rightarrow> mem_db \<Rightarrow> (exn + nat) \<times> mem_db" where
  "mem_updateMany args d =
     (let rows = d (um_model args) in
      (Inr (length (filter (row_matches (um_where args)) rows)),
       d(um_model args :=
           map (\<lambda>r. if row_matches (um_where args) r then write_fields (um_update args) r else r) rows)))"

definition mem_findOne :: "findOne_args \<Rightarrow> mem_db \<Rightarrow> (exn + row option) \<times> mem_db" where
  "mem_findOne args d = (Inr (find (row_matches (fo_where args)) (d (fo_model args))), d)"

definition mem_create :: "create_args \<Rightarrow> mem_db \<Rightarrow> (exn + row) \<times> mem_db" where
  "mem_create args d =
     (let r = write_fields (cr_data args) Map.empty in
      (Inr r, d(cr_model args := d (cr_model args) @ [r])))"

definition mem_adapter :: "mem_db adapter" where
  "mem_adapter = \<lparr>updateMany = Some mem_updateMany, findOne = mem_findOne, create = mem_create\<rparr>"


section \<open>Server: the challenge endpoint (\<open>server/endpoints/challenge.ts\<close>)\<close>

text \<open>
  \<open>Buffer.toString("base64url")\<close>: three bytes give four characters of the url-safe
  alphabet, a last group of one or two bytes gives two or three, and there is no padding.
\<close>

definition base64url_alphabet :: string where
  "base64url_alphabet = ''ABCDEFGHIJKLMNOPQRSTUVWXYZabcdefghijklmnopqrstuvwxyz0123456789-_''"

definition base64url_char :: "nat \<Rightarrow> char" where
  "base64url_char n = base64url_alphabet ! (n mod 64)"

fun base64url_groups :: "nat list \<Rightarrow> string" where
  "base64url_groups (a # b # c # rest) =
     base64url_char (a div 4) #
     base64url_char ((a mod 4) * 16 + b div 16) #
     base64url_char ((b mod 16) * 4 + c div 64) #
     base64url_char (c mod 64) #
     base64url_groups rest"
| "base64url_groups [a, b] =
     [base64url_char (a div 4),
      base64url_char ((a mod 4) * 16 + b div 16),
      base64url_char ((b mod 16) * 4)]"
| "base64url_groups [a] =
     [base64url_char (a div 4),
      base64url_char ((a mod 4) * 16)]"
| "base64url_groups [] = []"

definition base64url :: "8 word list \<Rightarrow> string" where
  "base64url bytes = base64url_groups (map unat bytes)"

text \<open>\<open>crypto.randomBytes(n)\<close> takes the next \<open>n\<close> bytes of the entropy source.\<close>

definition crypto_randomBytes :: "nat \<Rightarrow> (8 word list, 'db world) prog" where
  "crypto_randomBytes n w =
     (Inr (map (\<lambda>k. entropy w (entropy_used w + k)) [0..<n]),
      w\<lparr>entropy_used := entropy_used w + n\<rparr>)"

text \<open>\<open>ctx.context.generateId\<close> hands out the next identifier.\<close>

definition generateId :: "(string, 'db world) prog" where
  "generateId w = (Inr (idgen w (ids_made w)), w\<lparr>ids_made := Suc (ids_made w)\<rparr>)"

text \<open>
  The session of the request: \<open>null\<close>/\<open>undefined\<close> or an object whose \<open>user\<close> may be
  missing. \<open>session?.user?.id\<close> is falsy when the session or its user is missing or the
  identifier is the empty string; \<open>session_user_id\<close> gives the identifier when it is truthy.
\<close>

record session_user =
  user_id :: string

record session =
  user :: "session_user option"

definition session_user_id :: "session option \<Rightarrow> string option" where
  "session_user_id s =
     (case s of
        None \<Rightarrow> None
      | Some se \<Rightarrow>
          (case user se of
             None \<Rightarrow> None
           | Some u \<Rightarrow> if user_id u = [] then None else Some (user_id u)))"

text \<open>
  Modelled from the spec: the request body. Its schema (\<open>challengeSchema\<close> of
  \<open>server/utils/schema\<close>) is not among the sources; by section 6 of the specification
  and the handler's use of it, the body has a \<open>type\<close>, an optional \<open>userId\<close> and
  optional \<open>registrationOptions\<close>, an object kept here as its \<open>JSON.stringify\<close> text.
  The type is any string: the handler only tests it against \<open>registration\<close>.
\<close>

record challenge_body =
  body_type :: string
  body_userId :: "string option"
  registrationOptions :: "string option"

text \<open>
  The schema configuration (its declaration in \<open>types\<close> is not among the sources; the
  endpoint's tests give its two model names), the handler's context and its response.
\<close>

record ResolvedSchemaConfig =
  authPasskeyModel :: string
  passkeyChallengeModel :: string

record 'db challenge_ctx =
  body :: challenge_body
  context_session :: "session option"
  context_adapter :: "'db adapter"

record challenge_response =
  challenge :: string

definition exn_message :: "exn \<Rightarrow> string" where
  "exn_message e = (case e of APIError st c m \<Rightarrow> m | RangeError m \<Rightarrow> m | Error m \<Rightarrow> m)"

definition is_APIError :: "exn \<Rightarrow> bool" where
  "is_APIError e = (case e of APIError st c m \<Rightarrow> True | _ \<Rightarrow> False)"

text \<open>
  Both versions of the handler share their text from the session check on: the check of
  a registration request (\<open>registration_userId\<close>), and the generation and storage of the
  challenge (\<open>generate_challenge\<close>). \<open>fallback\<close> is the \<open>userId\<close> stored for an
  authentication challenge requested without one.
\<close>

definition registration_userId ::
  "'db challenge_ctx \<Rightarrow> session option \<Rightarrow> (string, 'db world) prog" where
  "registration_userId ctx session_v =
     (case session_user_id session_v of
        None \<Rightarrow>
          bind_prog
            (logger (Log_warn ''Registration challenge requires authentication''
                       [(''hasSession'', Arg_bool (session_v \<noteq> None))]))
            (\<lambda>_. throw_prog (APIError ''UNAUTHORIZED'' ''SESSION_REQUIRED''
                                ''You must be logged in to register a passkey''))
      | Some userId \<Rightarrow>
          bind_prog
            (call_findOne (context_adapter ctx)
               \<lparr>fo_model = ''user'', fo_where = [Where ''id'' Op_eq (Str userId)]\<rparr>)
            (\<lambda>found.
              case found of
                None \<Rightarrow>
                  bind_prog
                    (logger (Log_warn ''Challenge generation failed: User not found''
                               [(''userId'', Arg_str userId)]))
                    (\<lambda>_. throw_prog (APIError ''BAD_REQUEST'' ''USER_NOT_FOUND'' ''User not found''))
              | Some u \<Rightarrow> return_prog userId))"

definition authentication_userId :: "string \<Rightarrow> 'db challenge_ctx \<Rightarrow> string" where
  "authentication_userId fallback ctx =
     (case body_userId (body ctx) of
        None \<Rightarrow> fallback
      | Some u \<Rightarrow> if u = [] then fallback else u)"

definition challenge_data ::
  "string \<Rightarrow> string \<Rightarrow> string \<Rightarrow> string \<Rightarrow> int \<Rightarrow> int \<Rightarrow> string option \<Rightarrow> (string \<times> fvalue) list" where
  "challenge_data id_v userId challenge_v type_v createdAt expiresAt regOptions =
     [(''id'', Str id_v),
      (''userId'', Str userId),
      (''challenge'', Str challenge_v),
      (''type'', Str type_v),
      (''createdAt'', IsoTime createdAt),
      (''expiresAt'', IsoTime expiresAt),
      (''registrationOptions'', (case regOptions of None \<Rightarrow> Null | Some j \<Rightarrow> Str j))]"

definition generate_challenge ::
  "ResolvedSchemaConfig \<Rightarrow> 'db challenge_ctx \<Rightarrow> string \<Rightarrow> (challenge_response, 'db world) prog" where
  "generate_challenge schemaConfig ctx userId =
     bind_prog
       (logger (Log_debug ''Generating WebAuthn challenge:''
                  [(''userId'', Arg_str userId), (''type'', Arg_str (body_type (body ctx)))]))
       (\<lambda>_.
     bind_prog (crypto_randomBytes 32) (\<lambda>randomBytes.
     let challenge_v = base64url randomBytes in
     bind_prog new_Date (\<lambda>now.
     let expiresAt = Date_plus_ms now (5 * 60 * 1000) in
     bind_prog generateId (\<lambda>id_v.
     bind_prog (toISOString now) (\<lambda>createdAt_iso.
     bind_prog (toISOString expiresAt) (\<lambda>expiresAt_iso.
     bind_prog
       (call_create (context_adapter ctx)
          \<lparr>cr_model = passkeyChallengeModel schemaConfig,
           cr_data = challenge_data id_v userId challenge_v (body_type (body ctx))
                       createdAt_iso expiresAt_iso (registrationOptions (body ctx)),
           forceAllowId = True\<rparr>)
       (\<lambda>_.
     bind_prog
       (logger (Log_debug ''Challenge generated successfully''
                  [(''userId'', Arg_str userId), (''type'', Arg_str (body_type (body ctx))),
                   (''challengeLength'', Arg_num (length challenge_v))]))
       (\<lambda>_.
     return_prog \<lparr>challenge = challenge_v\<rparr>))))))))"

definition challenge_catch :: "exn \<Rightarrow> (challenge_response, 'db world) prog" where
  "challenge_catch error =
     bind_prog (logger (Log_error ''Failed to generate challenge:'' [(''error'', Arg_exn error)]))
       (\<lambda>_.
         if is_APIError error then throw_prog error
         else throw_prog (APIError ''INTERNAL_SERVER_ERROR'' ''CHALLENGE_GENERATION_FAILED''
                            ''Failed to generate challenge''))"

text \<open>
  The handler of \<open>server/endpoints/challenge.ts\<close>: the session is
  \<open>ctx.context.session\<close>, the fallback identity is \<open>anonymous\<close>.
\<close>

definition createChallengeEndpoint ::
  "ResolvedSchemaConfig \<Rightarrow> 'db challenge_ctx \<Rightarrow> (challenge_response, 'db world) prog" where
  "createChallengeEndpoint schemaConfig ctx =
     try_catch
       (bind_prog
          (if body_type (body ctx) = ''registration''
           then registration_userId ctx (context_session ctx)
           else return_prog (authentication_userId ''anonymous'' ctx))
          (generate_challenge schemaConfig ctx))
       challenge_catch"

text \<open>
  The handler of the later version of the endpoint (the one the endpoint's tests run):
  the session comes from the session fetcher, which may throw, and a failed fetch counts
  as no session; the fallback identity is \<open>auto-discovery\<close>. The fetcher is a parameter:
  its outcome for the request.
\<close>

definition fetch_session ::
  "('db challenge_ctx \<Rightarrow> exn + session option) \<Rightarrow> 'db challenge_ctx \<Rightarrow> (session option, 'db world) prog" where
  "fetch_session sessionFetcher ctx =
     (case sessionFetcher ctx of
        Inr session_v \<Rightarrow> return_prog session_v
      | Inl sessionError \<Rightarrow>
          bind_prog
            (logger (Log_debug ''Session fetch failed (acceptable for auth challenges)''
                       [(''type'', Arg_str (body_type (body ctx))),
                        (''error'', Arg_str (exn_message sessionError))]))
            (\<lambda>_. return_prog None))"

definition createChallengeEndpoint_sessionFetcher ::
  "ResolvedSchemaConfig \<Rightarrow> ('db challenge_ctx \<Rightarrow> exn + session option) \<Rightarrow>
   'db challenge_ctx \<Rightarrow> (challenge_response, 'db world) prog" where
  "createChallengeEndpoint_sessionFetcher schemaConfig sessionFetcher ctx =
     try_catch
       (bind_prog (fetch_session sessionFetcher ctx) (\<lambda>session_v.
        bind_prog
          (if body_type (body ctx) = ''registration''
           then registration_userId ctx session_v
           else return_prog (authentication_userId ''auto-discovery'' ctx))
          (generate_challenge schemaConfig ctx)))
       challenge_catch"

text \<open>The \<open>create\<close> call a run ended with, when its last adapter call was one.\<close>

definition last_create :: "adapter_call list \<Rightarrow> create_args option" where
  "last_create cs =
     (case rev cs of
        Call_create args # _ \<Rightarrow> Some args
      | _ \<Rightarrow> None)"


section \<open>The sweep as specified, and concrete worlds\<close>

text \<open>The system clock only gives time values a \<open>Date\<close> can hold.\<close>

definition clock_valid :: "'db world \<Rightarrow> bool" where
  "clock_valid w = (\<forall>k. \<bar>clock w k\<bar> \<le> maxTimeValue)"

text \<open>
  The cutoff of a sweep with \<open>inactiveDays = d\<close>: the instant \<open>d\<close> calendar days of
  local time before the sweep's first reading of the clock. In a zone whose offset is
  fixed it is that reading minus \<open>d\<close> times 24 hours.
\<close>

definition inactive_cutoff :: "'db world \<Rightarrow> int \<Rightarrow> int" where
  "inactive_cutoff w d =
     UTC_of_local (LocalTZA w) (LocalTime (LocalTZA w) (clock w (clock_reads w)) - d * msPerDay)"

definition fixed_offset :: "'db world \<Rightarrow> bool" where
  "fixed_offset w = (\<forall>t u b c. LocalTZA w t b = LocalTZA w u c)"

text \<open>
  The sweep in the words of the specification: a credential is inactive at a cutoff when
  its status is \<open>active\<close> and its \<open>lastUsed\<close> is before the cutoff; revoking it
  sets the status, the time and the reason of the revocation (and the time of the update).
\<close>

definition inactive_credential :: "int \<Rightarrow> row \<Rightarrow> bool" where
  "inactive_credential cutoff r =
     (r ''status'' = Some (Str ''active'') \<and>
      (case r ''lastUsed'' of Some (IsoTime t) \<Rightarrow> t < cutoff | _ \<Rightarrow> False))"

definition revoked_credential :: "int \<Rightarrow> int \<Rightarrow> row \<Rightarrow> row" where
  "revoked_credential revokedAt updatedAt r =
     r(''status'' \<mapsto> Str ''revoked'',
       ''revokedAt'' \<mapsto> IsoTime revokedAt,
       ''revokedReason'' \<mapsto> Str ''automatic_inactive'',
       ''updatedAt'' \<mapsto> IsoTime updatedAt)"

text \<open>
  A concrete world: three stored passkeys (one active and long unused, one active and
  recently used, one already revoked), the clock at 2023-01-01T00:00:00Z, the zone UTC.
\<close>

definition example_rows :: "row list" where
  "example_rows =
     [[''id'' \<mapsto> Str ''pk1'', ''status'' \<mapsto> Str ''active'', ''lastUsed'' \<mapsto> IsoTime 1600000000000],
      [''id'' \<mapsto> Str ''pk2'', ''status'' \<mapsto> Str ''active'', ''lastUsed'' \<mapsto> IsoTime 1672000000000],
      [''id'' \<mapsto> Str ''pk3'', ''status'' \<mapsto> Str ''revoked'', ''lastUsed'' \<mapsto> IsoTime 1500000000000]]"

definition example_world :: "mem_db world" where
  "example_world =
     \<lparr>db = (\<lambda>m. if m = ''authPasskey'' then example_rows else []),
      clock = (\<lambda>k. 1672531200000),
      clock_reads = 0,
      entropy = (\<lambda>k. of_nat k),
      entropy_used = 0,
      idgen = (\<lambda>k. ''generated-challenge-id''),
      ids_made = 0,
      NODE_ENV = Some ''test'',
      LocalTZA = (\<lambda>t b. 0),
      logs = [],
      calls = [],
      intervals = []\<rparr>"

text \<open>
  A second world, in a zone that changes its offset: five hours behind UTC until
  2023-03-12T07:00:00Z and four hours behind from then on, as New York was that spring
  (a local time value before 03:00 of that day is taken with the earlier offset). The
  clock stands at 2023-03-20T12:00:00Z; one active passkey was last used on
  2023-02-18 at 12:30:00Z, one on that day at 13:00:00Z, and one is already revoked.
\<close>

definition example_zone :: time_zone where
  "example_zone t isUTC =
     (if isUTC
      then (if t < 1678604400000 then - 18000000 else - 14400000)
      else (if t < 1678590000000 then - 18000000 else - 14400000))"

definition example_rows_dst :: "row list" where
  "example_rows_dst =
     [[''id'' \<mapsto> Str ''pk1'', ''status'' \<mapsto> Str ''active'', ''lastUsed'' \<mapsto> IsoTime 1676723400000],
      [''id'' \<mapsto> Str ''pk2'', ''status'' \<mapsto> Str ''active'', ''lastUsed'' \<mapsto> IsoTime 1676725200000],
      [''id'' \<mapsto> Str ''pk3'', ''status'' \<mapsto> Str ''revoked'', ''lastUsed'' \<mapsto> IsoTime 1500000000000]]"

definition example_world_dst :: "mem_db world" where
  "example_world_dst =
     \<lparr>db = (\<lambda>m. if m = ''authPasskey'' then example_rows_dst else []),
      clock = (\<lambda>k. 1679313600000),
      clock_reads = 0,
      entropy = (\<lambda>k. of_nat k),
      entropy_used = 0,
      idgen = (\<lambda>k. ''generated-challenge-id''),
      ids_made = 0,
      NODE_ENV = Some ''test'',
      LocalTZA = example_zone,
      logs = [],
      calls = [],
      intervals = []\<rparr>"

definition example_ctx :: "mem_db AuthContext" where
  "example_ctx = \<lparr>adapter = Some mem_adapter\<rparr>"


text \<open>A context whose store rejects every \<open>updateMany\<close>, as a database that is down does.\<close>

definition failing_updateMany :: "updateMany_args \<Rightarrow> mem_db \<Rightarrow> (exn + nat) \<times> mem_db" where
  "failing_updateMany args d = (Inl (Error ''Database error''), d)"

definition failing_ctx :: "mem_db AuthContext" where
  "failing_ctx =
     \<lparr>adapter = Some \<lparr>updateMany = Some failing_updateMany, findOne = mem_findOne, create = mem_create\<rparr>\<rparr>"


text \<open>
  Two worlds have the same sources when the clock and the entropy source stand where
  they stood: nothing was read from either in between.
\<close>

definition same_sources :: "'db world \<Rightarrow> 'db world \<Rightarrow> bool" where
  "same_sources w w' =
     (clock w' = clock w \<and> clock_reads w' = clock_reads w \<and>
      entropy w' = entropy w \<and> entropy_used w' = entropy_used w)"

text \<open>A request for a challenge without a session, against the reference adapter.\<close>

definition example_schemaConfig :: ResolvedSchemaConfig where
  "example_schemaConfig = \<lparr>authPasskeyModel = ''authPasskey'', passkeyChallengeModel = ''passkeyChallenge''\<rparr>"

definition example_challenge_ctx :: "string \<Rightarrow> mem_db challenge_ctx" where
  "example_challenge_ctx type_v =
     \<lparr>body = \<lparr>body_type = type_v, body_userId = None, registrationOptions = None\<rparr>,
      context_session = None,
      context_adapter = mem_adapter\<rparr>"


section \<open>The challenge store and the authentication ceremony\<close>

text \<open>
  Modelled from the spec: the endpoint that completes an authentication
  (\<open>server/endpoints/authenticate\<close>), with its consumption of challenges, is not among
  the sources; only its tests are. The data model, the challenge store and the ceremony
  below follow sections 3, 4.1 and 4.3 of the specification. Where the endpoint's tests
  say more than the specification they are followed: stored metadata that is \<open>null\<close> is
  taken as the empty object without a warning (the test of null metadata expects that no
  warning is logged), and the warning for unparseable metadata carries the credential's
  identifier.
\<close>

text \<open>
  Modelled from the spec: the Challenge of section 3 (missing: the schema of the stored
  challenge as the authenticate endpoint reads it), with its type, a tagged variant.
\<close>

datatype ceremony_type = Registration | Authentication

record Challenge =
  c_id :: string
  c_userId :: string
  challengeValue :: string
  c_type :: ceremony_type
  c_createdAt :: int
  c_expiresAt :: int
  c_registrationOptions :: "string option"

text \<open>
  Modelled from the spec: the Credential of section 3 (missing: the schema of the stored
  passkey as the authenticate endpoint reads it). Its metadata blob is JSON text: it
  either parses to an object (kept here as the object, a map from field names to values)
  or it does not parse.
\<close>

datatype credential_status = Active | Revoked

datatype metadata_blob = Json_object "string \<rightharpoonup> fvalue" | Unparseable string

record Credential =
  p_id :: string
  p_userId :: string
  credentialId :: string
  publicKey :: string
  counter :: nat
  status :: credential_status
  p_createdAt :: int
  lastUsed :: int
  revokedAt :: "int option"
  revokedReason :: "string option"
  metadata :: "metadata_blob option"

text \<open>Modelled from the spec: the error taxonomy of section 7 (missing: the error codes of the endpoint).\<close>

datatype ceremony_error =
    ChallengeNotFound
  | ChallengeExpired
  | ChallengeTypeMismatch
  | Unauthorized
  | UserNotFound
  | CredentialNotFound
  | CredentialRevoked
  | CounterReplayDetected
  | VerificationFailed
  | AdapterUnavailable
  | InternalError

text \<open>
  Modelled from the spec: the persistent store of the core (missing: the tables behind the
  endpoint's adapter calls), and the warnings the core has recorded.
\<close>

record core_state =
  challenges :: "Challenge list"
  credentials :: "Credential list"
  warnings :: "(string \<times> string) list"

text \<open>
  Modelled from the spec: the sentinel identity of a challenge issued before the user is
  known (missing: the constant the authenticate endpoint looks up); the challenge endpoint
  above stores \<open>auto-discovery\<close>.
\<close>

definition unresolved :: string where
  "unresolved = ''auto-discovery''"

text \<open>
  Modelled from the spec: \<open>issue\<close> of the ChallengeStore (section 4.1), on the store
  of the core; the challenge endpoint above is the code that issues. The record's
  identifier and the fresh random value are given; the expiry is five minutes after
  the creation.
\<close>

definition ChallengeStore_issue ::
  "string \<Rightarrow> string \<Rightarrow> string \<Rightarrow> ceremony_type \<Rightarrow> string option \<Rightarrow> int \<Rightarrow> core_state \<Rightarrow> Challenge \<times> core_state" where
  "ChallengeStore_issue new_id fresh_value userId type_v regOptions now st =
     (let ch = \<lparr>c_id = new_id, c_userId = userId, challengeValue = fresh_value, c_type = type_v,
                c_createdAt = now, c_expiresAt = now + 5 * 60 * 1000,
                c_registrationOptions = regOptions\<rparr>
      in (ch, st\<lparr>challenges := challenges st @ [ch]\<rparr>))"

text \<open>
  Modelled from the spec: the lookup key of \<open>consume\<close> (section 4.1; missing: the
  challenge lookup of the authenticate endpoint), a challenge value, or a user identifier
  that goes together with the type.
\<close>

datatype lookup_key = By_value string | By_user string

fun key_matches :: "lookup_key \<Rightarrow> ceremony_type \<Rightarrow> Challenge \<Rightarrow> bool" where
  "key_matches (By_value v) type_v ch = (challengeValue ch = v)"
| "key_matches (By_user u) type_v ch = (c_userId ch = u \<and> c_type ch = type_v)"

text \<open>
  Modelled from the spec: \<open>consume\<close> of the ChallengeStore (section 4.1; missing: the
  challenge lookup and deletion of the authenticate endpoint). The store locates a
  challenge for the key; none gives \<open>ChallengeNotFound\<close>; one past its expiry is
  discarded and gives \<open>ChallengeExpired\<close>; one of another type gives
  \<open>ChallengeTypeMismatch\<close>; otherwise the challenge is deleted and returned.
\<close>

definition ChallengeStore_consume ::
  "lookup_key \<Rightarrow> ceremony_type \<Rightarrow> int \<Rightarrow> core_state \<Rightarrow> (ceremony_error + Challenge) \<times> core_state" where
  "ChallengeStore_consume key type_v now st =
     (case find (key_matches key type_v) (challenges st) of
        None \<Rightarrow> (Inl ChallengeNotFound, st)
      | Some ch \<Rightarrow>
          if c_expiresAt ch < now
          then (Inl ChallengeExpired, st\<lparr>challenges := remove1 ch (challenges st)\<rparr>)
          else if c_type ch \<noteq> type_v then (Inl ChallengeTypeMismatch, st)
          else (Inr ch, st\<lparr>challenges := remove1 ch (challenges st)\<rparr>))"

text \<open>How many stored challenges a key designates: at most one, for a key that names one.\<close>

definition unique_match :: "lookup_key \<Rightarrow> ceremony_type \<Rightarrow> core_state \<Rightarrow> bool" where
  "unique_match key type_v st = (length (filter (key_matches key type_v) (challenges st)) \<le> 1)"




text \<open>
  Modelled from the spec: \<open>findByCredentialId\<close> of the CredentialRepository (section
  4.4; missing: the passkey lookup of the authenticate endpoint).
\<close>

definition findByCredentialId :: "string \<Rightarrow> core_state \<Rightarrow> Credential option" where
  "findByCredentialId cid st = find (\<lambda>c. credentialId c = cid) (credentials st)"

text \<open>
  Modelled from the spec: \<open>updateCounterAndMetadata\<close> of the CredentialRepository
  (section 4.4; missing: the passkey update of the authenticate endpoint). It writes the
  counter, \<open>lastUsed\<close> and the merged metadata of the credential with the identifier.
\<close>

definition updateCounterAndMetadata ::
  "string \<Rightarrow> nat \<Rightarrow> int \<Rightarrow> (string \<rightharpoonup> fvalue) \<Rightarrow> core_state \<Rightarrow> core_state" where
  "updateCounterAndMetadata cid newCounter now merged st =
     st\<lparr>credentials :=
          map (\<lambda>c. if credentialId c = cid
                    then c\<lparr>counter := newCounter, lastUsed := now, metadata := Some (Json_object merged)\<rparr>
                    else c)
            (credentials st)\<rparr>"

text \<open>
  Modelled from the spec: the interfaces of the authentication ceremony (sections 4.3 and
  6; missing: the body schema and the response of the authenticate endpoint). The
  request carries the credential identifier of the assertion, the assertion itself, an
  optional claimed user and optional metadata fields. The external verifier is a
  parameter of the ceremony: given the assertion, the stored public key, the challenge
  value, the relying party's configuration and the stored counter, it answers \<open>None\<close>
  when the assertion is not verified and the new counter otherwise.
\<close>

record auth_request =
  req_credentialId :: string
  req_assertion :: string
  req_userId :: "string option"
  req_metadata :: "(string \<rightharpoonup> fvalue) option"

record rp_config =
  rpId :: string
  origins :: "string list"

record auth_result =
  session_handle :: string
  session_userId :: string

type_synonym verifier = "string \<Rightarrow> string \<Rightarrow> string \<Rightarrow> rp_config \<Rightarrow> nat \<Rightarrow> nat option"

text \<open>
  Modelled from the spec: step 1 of the ceremony (missing: the authenticate endpoint), the
  credential of the assertion, which must be active.
\<close>

definition resolve_credential :: "string \<Rightarrow> core_state \<Rightarrow> ceremony_error + Credential" where
  "resolve_credential cid st =
     (case findByCredentialId cid st of
        None \<Rightarrow> Inl CredentialNotFound
      | Some cred \<Rightarrow> if status cred = Active then Inr cred else Inl CredentialRevoked)"

text \<open>
  Modelled from the spec: step 2 of the ceremony (missing: the authenticate endpoint).
  With a claimed user, a challenge of that user; without, a challenge of the credential's
  owner and, if there is none, one issued under the sentinel.
\<close>

definition resolve_challenge ::
  "auth_request \<Rightarrow> Credential \<Rightarrow> int \<Rightarrow> core_state \<Rightarrow> (ceremony_error + Challenge) \<times> core_state" where
  "resolve_challenge req cred now st =
     (case req_userId req of
        Some u \<Rightarrow> ChallengeStore_consume (By_user u) Authentication now st
      | None \<Rightarrow>
          (case ChallengeStore_consume (By_user (p_userId cred)) Authentication now st of
             (Inl ChallengeNotFound, st') \<Rightarrow>
               ChallengeStore_consume (By_user unresolved) Authentication now st'
           | other \<Rightarrow> other))"

text \<open>
  Modelled from the spec: step 4 of the ceremony (missing: the authenticate endpoint). A
  counter that did not advance is a replay, unless both counters are 0.
\<close>

definition counter_replay :: "nat \<Rightarrow> nat \<Rightarrow> bool" where
  "counter_replay stored newCounter = (newCounter \<le> stored \<and> \<not> (newCounter = 0 \<and> stored = 0))"

text \<open>
  Modelled from the spec: step 5 of the ceremony (missing: the authenticate endpoint),
  the stored metadata as an object. Text that does not parse is the empty object and a
  warning is recorded; absent metadata is the empty object, and here the endpoint's test
  of null metadata is followed: no warning.
\<close>

definition existing_metadata :: "Credential \<Rightarrow> core_state \<Rightarrow> (string \<rightharpoonup> fvalue) \<times> core_state" where
  "existing_metadata cred st =
     (case metadata cred of
        None \<Rightarrow> (Map.empty, st)
      | Some (Json_object obj) \<Rightarrow> (obj, st)
      | Some (Unparseable text_v) \<Rightarrow>
          (Map.empty,
           st\<lparr>warnings := warnings st @
               [(''Failed to parse existing passkey metadata, resetting:'', credentialId cred)]\<rparr>))"

text \<open>
  Modelled from the spec: the shallow merge of step 5 (missing: the authenticate
  endpoint). The fields of the request go over the existing object, then
  \<open>lastAuthenticationAt\<close> is set to the time of the ceremony.
\<close>

definition merge_metadata ::
  "(string \<rightharpoonup> fvalue) \<Rightarrow> (string \<rightharpoonup> fvalue) option \<Rightarrow> int \<Rightarrow> (string \<rightharpoonup> fvalue)" where
  "merge_metadata existing supplied now =
     (existing ++ (case supplied of None \<Rightarrow> Map.empty | Some obj \<Rightarrow> obj))
       (''lastAuthenticationAt'' \<mapsto> IsoTime now)"

text \<open>
  Modelled from the spec: the state machine of section 4.3 (missing: the handler of the
  authenticate endpoint). Steps 1 to 4 abort with their error; step 5 persists the new
  counter, \<open>lastUsed\<close> and the merged metadata in one update; step 6 asks the external
  session issuer, a parameter, for a session of the credential's owner.
\<close>

definition AuthenticationCeremony ::
  "verifier \<Rightarrow> (string \<Rightarrow> string) \<Rightarrow> rp_config \<Rightarrow> int \<Rightarrow> auth_request \<Rightarrow> core_state \<Rightarrow>
   (ceremony_error + auth_result) \<times> core_state" where
  "AuthenticationCeremony verify issue_session rp now req st =
     (case resolve_credential (req_credentialId req) st of
        Inl e \<Rightarrow> (Inl e, st)
      | Inr cred \<Rightarrow>
          (case resolve_challenge req cred now st of
             (Inl e, st1) \<Rightarrow> (Inl e, st1)
           | (Inr ch, st1) \<Rightarrow>
               (case verify (req_assertion req) (publicKey cred) (challengeValue ch) rp (counter cred) of
                  None \<Rightarrow> (Inl VerificationFailed, st1)
                | Some newCounter \<Rightarrow>
                    if counter_replay (counter cred) newCounter
                    then (Inl CounterReplayDetected, st1)
                    else
                      (case existing_metadata cred st1 of
                         (existing, st2) \<Rightarrow>
                           (Inr \<lparr>session_handle = issue_session (p_userId cred),
                                 session_userId = p_userId cred\<rparr>,
                            updateCounterAndMetadata (credentialId cred) newCounter now
                              (merge_metadata existing (req_metadata req) now) st2)))))"


text \<open>
  Concrete states of the core: a store with two pending authentication challenges of one
  user, issued one after the other; and the situation of the endpoint's tests, one active
  credential of \<open>user-123\<close> with a given stored counter and metadata blob, one pending
  authentication challenge, and a request that supplies two metadata fields.
\<close>

definition empty_core :: core_state where
  "empty_core = \<lparr>challenges = [], credentials = [], warnings = []\<rparr>"

definition two_pending :: core_state where
  "two_pending =
     snd (ChallengeStore_issue ''challenge-id-2'' ''value-2'' ''user-123'' Authentication None 1000
       (snd (ChallengeStore_issue ''challenge-id-1'' ''value-1'' ''user-123'' Authentication None 0
          empty_core)))"

definition first_pending :: Challenge where
  "first_pending =
     \<lparr>c_id = ''challenge-id-1'', c_userId = ''user-123'', challengeValue = ''value-1'',
      c_type = Authentication, c_createdAt = 0, c_expiresAt = 300000, c_registrationOptions = None\<rparr>"


definition example_credential :: "nat \<Rightarrow> metadata_blob option \<Rightarrow> Credential" where
  "example_credential stored_counter blob =
     \<lparr>p_id = ''passkey-id'', p_userId = ''user-123'', credentialId = ''test-credential-id'',
      publicKey = ''base64-encoded-key'', counter = stored_counter, status = Active,
      p_createdAt = 0, lastUsed = 0, revokedAt = None, revokedReason = None, metadata = blob\<rparr>"

definition example_core :: "nat \<Rightarrow> metadata_blob option \<Rightarrow> core_state" where
  "example_core stored_counter blob =
     \<lparr>challenges =
        [\<lparr>c_id = ''challenge-id'', c_userId = ''user-123'', challengeValue = ''test-challenge'',
          c_type = Authentication, c_createdAt = 0, c_expiresAt = 300000,
          c_registrationOptions = None\<rparr>],
      credentials = [example_credential stored_counter blob],
      warnings = []\<rparr>"

definition example_request :: auth_request where
  "example_request =
     \<lparr>req_credentialId = ''test-credential-id'', req_assertion = ''test-signature'',
      req_userId = None,
      req_metadata = Some [''lastLocation'' \<mapsto> Str ''mobile-app'', ''appVersion'' \<mapsto> Str ''1.0.0'']\<rparr>"

definition example_rp :: rp_config where
  "example_rp = \<lparr>rpId = ''example.com'', origins = [''https://example.com'', ''example://'']\<rparr>"

definition example_after_challenge :: "nat \<Rightarrow> metadata_blob option \<Rightarrow> core_state" where
  "example_after_challenge stored_counter blob =
     \<lparr>challenges = [], credentials = [example_credential stored_counter blob], warnings = []\<rparr>"

definition example_challenge :: Challenge where
  "example_challenge =
     \<lparr>c_id = ''challenge-id'', c_userId = ''user-123'', challengeValue = ''test-challenge'',
      c_type = Authentication, c_createdAt = 0, c_expiresAt = 300000,
      c_registrationOptions = None\<rparr>"


section \<open>Properties of the native module wrapper\<close>

lemma isNativePasskeySupported_cached:
  "cachedIsSupported s = Some b \<Longrightarrow> isNativePasskeySupported native s = (Inr b, s)"
  by (simp add: isNativePasskeySupported_def return_prog_def)

lemma isNativePasskeySupported_first:
  "isNativePasskeySupported native module_init =
     (Inr (first_answer native),
      \<lparr>cachedIsSupported = Some (first_answer native), native_calls = 1,
       console_errors = first_errors native\<rparr>)"
  by (simp add: isNativePasskeySupported_def module_init_def try_catch_def bind_prog_def
      return_prog_def ExpoPasskeyModule_isPasskeySupported_def set_cachedIsSupported_def
      console_error_def first_answer_def first_errors_def split: sum.splits)

lemma call_sequence_cached:
  "cachedIsSupported s = Some b \<Longrightarrow> call_sequence native n s = (replicate n (Inr b), s)"
  by (induction n) (simp_all add: isNativePasskeySupported_cached)

text \<open>
  Claim C10. In one process (the module state starts with an empty cache), any number of
  calls of \<open>isNativePasskeySupported\<close>, whatever the native module does at each of its
  invocations: every call returns (none throws), all return the boolean of the first call,
  which is the native module's first answer or \<open>false\<close> when that invocation threw; the
  native module has been invoked exactly once after the first call and never again; the
  cache holds that boolean.
\<close>

theorem isNativePasskeySupported_immutable_after_first_read:
  "call_sequence native (Suc n) module_init =
     (replicate (Suc n) (Inr (first_answer native)),
      \<lparr>cachedIsSupported = Some (first_answer native), native_calls = 1,
       console_errors = first_errors native\<rparr>)"
  by (simp add: isNativePasskeySupported_first call_sequence_cached)


text \<open>A process whose native module throws at its first invocation: three calls.\<close>

theorem isNativePasskeySupported_immutable_after_first_read_witness:
  "call_sequence (\<lambda>k. if k = 0 then Inl (Error ''native module missing'') else Inr True) 3 module_init =
     ([Inr False, Inr False, Inr False],
      \<lparr>cachedIsSupported = Some False, native_calls = 1,
       console_errors = [Error ''native module missing'']\<rparr>)"
  using isNativePasskeySupported_immutable_after_first_read
    [of "\<lambda>k. if k = 0 then Inl (Error ''native module missing'') else Inr True" 2]
  by (simp add: first_answer_def first_errors_def numeral_3_eq_3)


section \<open>Properties of the cleanup job\<close>

lemmas prog_defs = bind_prog_def return_prog_def throw_prog_def try_catch_def

lemma performCleanup_returns: "fst (performCleanup ctx d w) = Inr ()"
  by (simp add: performCleanup_def prog_defs logger_def new_Date_def toISOString_def
      call_updateMany_def Date_setDate_minus_def Let_def split: option.split sum.split prod.split)

lemma performCleanup_no_adapter:
  "adapter_updateMany ctx = None \<Longrightarrow>
   performCleanup ctx d w =
     (Inr (), w\<lparr>logs := logs w @ [Log_warn ''Skipping cleanup: Database adapter not fully initialized'' []]\<rparr>)"
  by (simp add: performCleanup_def logger_def)

lemma performCleanup_sweep:
  assumes "adapter_updateMany ctx = Some f" and "clock_valid w"
    and "\<bar>inactive_cutoff w d\<bar> \<le> maxTimeValue"
  shows "performCleanup ctx d w =
     (let q = cleanup_query (inactive_cutoff w d)
                (clock w (Suc (clock_reads w))) (clock w (Suc (Suc (clock_reads w))))
      in case f q (db w) of
        (Inr n, db') \<Rightarrow>
          (Inr (), w\<lparr>db := db', clock_reads := Suc (Suc (Suc (clock_reads w))),
                     logs := logs w @ (if NODE_ENV w \<noteq> Some ''production''
                        then [Log_info ''Cleaned up ${result} inactive passkeys'' [(''result'', Arg_num n)]]
                        else []),
                     calls := calls w @ [Call_updateMany q]\<rparr>)
      | (Inl e, db') \<Rightarrow>
          (Inr (), w\<lparr>db := db', clock_reads := Suc (Suc (Suc (clock_reads w))),
                     logs := logs w @ [Log_error ''Cleanup job failed:'' [(''error'', Arg_exn e)]],
                     calls := calls w @ [Call_updateMany q]\<rparr>))"
  using assms
  by (simp add: performCleanup_def prog_defs logger_def new_Date_def toISOString_def TimeClip_def
      Date_setDate_minus_def setDate_minus_def inactive_cutoff_def clock_valid_def
      call_updateMany_def Let_def split: option.split sum.split prod.split)

lemma row_matches_cleanup:
  "row_matches (um_where (cleanup_query c t1 t2)) r = inactive_credential c r"
  by (auto simp: row_matches_def cleanup_query_def inactive_credential_def split: option.splits fvalue.splits)

lemma write_fields_cleanup:
  "write_fields (um_update (cleanup_query c t1 t2)) r = revoked_credential t1 t2 r"
  by (simp add: cleanup_query_def revoked_credential_def)

lemma um_model_cleanup: "um_model (cleanup_query c t1 t2) = ''authPasskey''"
  by (simp add: cleanup_query_def)

lemma setup_returns: "\<exists>r. fst (setupCleanupJob ctx options w) = Inr r"
  using performCleanup_returns[of ctx _ w]
  by (simp add: setupCleanupJob_def prog_defs logger_def setInterval_def Let_def split: option.split sum.split prod.split)

lemma interval_fires_returns: "fst (interval_fires ctx d n w) = Inr ()"
proof (induction n arbitrary: w)
  case 0
  show ?case by (simp add: return_prog_def)
next
  case (Suc n)
  obtain w' where "performCleanup ctx d w = (Inr (), w')"
    using performCleanup_returns[of ctx d w] by (cases "performCleanup ctx d w") auto
  then show ?case using Suc by (simp add: bind_prog_def)
qed

lemma setupCleanupJob_enabled:
  assumes "0 < (case inactiveDays options of None \<Rightarrow> 30 | Some d \<Rightarrow> d)"
    and "disableInterval options \<noteq> Some True"
  shows "setupCleanupJob ctx options w =
     (case performCleanup ctx (case inactiveDays options of None \<Rightarrow> 30 | Some d \<Rightarrow> d) w of
        (r, w') \<Rightarrow> (Inr (Interval_handle (length (intervals w'))),
                     w'\<lparr>intervals := intervals w' @ [86400000]\<rparr>))"
proof -
  obtain w' where "performCleanup ctx (case inactiveDays options of None \<Rightarrow> 30 | Some d \<Rightarrow> d) w = (Inr (), w')"
    using performCleanup_returns[of ctx _ w] by (metis prod.collapse)
  then show ?thesis using assms
    by (cases "disableInterval options") (auto simp add: setupCleanupJob_def prog_defs setInterval_def Let_def)
qed

lemma performCleanup_intervals: "intervals (snd (performCleanup ctx d w)) = intervals w"
  by (auto simp add: performCleanup_def prog_defs logger_def new_Date_def toISOString_def
      call_updateMany_def Date_setDate_minus_def Let_def split: option.splits sum.splits prod.splits)

lemma setupCleanupJob_schedules:
  assumes "0 < (case inactiveDays options of None \<Rightarrow> 30 | Some d \<Rightarrow> d)"
    and "disableInterval options \<noteq> Some True"
  shows "fst (setupCleanupJob ctx options w) = Inr (Interval_handle (length (intervals w))) \<and>
     intervals (snd (setupCleanupJob ctx options w)) = intervals w @ [86400000]"
  using performCleanup_intervals[of ctx "case inactiveDays options of None \<Rightarrow> 30 | Some d \<Rightarrow> d" w]
  by (cases "performCleanup ctx (case inactiveDays options of None \<Rightarrow> 30 | Some d \<Rightarrow> d) w")
     (simp add: setupCleanupJob_enabled[OF assms])

lemma inactive_cutoff_fixed_offset:
  assumes "fixed_offset w"
  shows "inactive_cutoff w d = clock w (clock_reads w) - d * msPerDay"
proof -
  have "LocalTZA w (clock w (clock_reads w) + LocalTZA w (clock w (clock_reads w)) True - d * msPerDay) False =
        LocalTZA w (clock w (clock_reads w)) True"
    using assms unfolding fixed_offset_def by blast
  then show ?thesis
    by (simp add: inactive_cutoff_def LocalTime_def UTC_of_local_def)
qed

text \<open>
  Claim C6. A sweep with \<open>inactiveDays = d\<close> against the reference store, when the clock
  is valid and the cutoff is a date the platform can hold: the sweep returns, it makes
  exactly one adapter call, one \<open>updateMany\<close> on the model \<open>authPasskey\<close>, and afterwards
  the table holds, in the same order, each record that was active with \<open>lastUsed\<close> before
  the cutoff with \<open>status = revoked\<close>, \<open>revokedReason = automatic_inactive\<close>,
  \<open>revokedAt\<close> the clock's next reading (and \<open>updatedAt\<close> the one after), and every
  other record as it was. The cutoff is \<open>d\<close> calendar days of local time before the
  first clock reading of the sweep, in whatever time zone the process runs; in a zone
  with a fixed offset that is the reading minus \<open>d\<close> times 24 hours.
\<close>

theorem performCleanup_revokes_inactive:
  assumes "adapter ctx = Some mem_adapter" and "clock_valid w"
    and "\<bar>inactive_cutoff w d\<bar> \<le> maxTimeValue"
  shows "fst (performCleanup ctx d w) = Inr () \<and>
     calls (snd (performCleanup ctx d w)) =
       calls w @ [Call_updateMany (cleanup_query (inactive_cutoff w d)
                (clock w (Suc (clock_reads w))) (clock w (Suc (Suc (clock_reads w)))))] \<and>
     db (snd (performCleanup ctx d w)) =
       (db w)(''authPasskey'' :=
          map (\<lambda>r. if inactive_credential (inactive_cutoff w d) r
                    then revoked_credential (clock w (Suc (clock_reads w))) (clock w (Suc (Suc (clock_reads w)))) r
                    else r)
            (db w ''authPasskey'')) \<and>
     inactive_cutoff w d =
       UTC_of_local (LocalTZA w) (LocalTime (LocalTZA w) (clock w (clock_reads w)) - d * msPerDay) \<and>
     (fixed_offset w \<longrightarrow> inactive_cutoff w d = clock w (clock_reads w) - d * msPerDay)"
proof -
  have f: "adapter_updateMany ctx = Some mem_updateMany"
    using assms(1) by (simp add: adapter_updateMany_def mem_adapter_def)
  have "fst (performCleanup ctx d w) = Inr () \<and>
     calls (snd (performCleanup ctx d w)) =
       calls w @ [Call_updateMany (cleanup_query (inactive_cutoff w d)
                (clock w (Suc (clock_reads w))) (clock w (Suc (Suc (clock_reads w)))))] \<and>
     db (snd (performCleanup ctx d w)) =
       (db w)(''authPasskey'' :=
          map (\<lambda>r. if inactive_credential (inactive_cutoff w d) r
                    then revoked_credential (clock w (Suc (clock_reads w))) (clock w (Suc (Suc (clock_reads w)))) r
                    else r)
            (db w ''authPasskey''))"
    unfolding performCleanup_sweep[OF f assms(2,3)]
    by (simp add: mem_updateMany_def Let_def row_matches_cleanup write_fields_cleanup
        um_model_cleanup cong: if_cong)
  then show ?thesis
    using inactive_cutoff_fixed_offset[of w d] by (simp add: inactive_cutoff_def)
qed

text \<open>
  Two concrete sweeps with \<open>inactiveDays = 30\<close>. In the zone of New York on
  2023-03-20T12:00:00Z, after the change to summer time, the cutoff is
  2023-02-18T13:00:00Z, an hour later than 30 times 24 hours before: the record used at
  12:30 that day is revoked, the one used at 13:00 is not. In UTC the cutoff is 30 times
  24 hours before the clock reading.
\<close>

theorem performCleanup_revokes_inactive_witness:
  "adapter example_ctx = Some mem_adapter \<and> clock_valid example_world_dst \<and>
   \<bar>inactive_cutoff example_world_dst 30\<bar> \<le> maxTimeValue \<and>
   inactive_cutoff example_world_dst 30 = 1676725200000 \<and>
   fst (performCleanup example_ctx 30 example_world_dst) = Inr () \<and>
   length (calls (snd (performCleanup example_ctx 30 example_world_dst))) = 1 \<and>
   map (\<lambda>r. r ''status'') (db (snd (performCleanup example_ctx 30 example_world_dst)) ''authPasskey'') =
     [Some (Str ''revoked''), Some (Str ''active''), Some (Str ''revoked'')] \<and>
   map (\<lambda>r. r ''revokedReason'') (db (snd (performCleanup example_ctx 30 example_world_dst)) ''authPasskey'') =
     [Some (Str ''automatic_inactive''), None, None] \<and>
   clock_valid example_world \<and> \<bar>inactive_cutoff example_world 30\<bar> \<le> maxTimeValue \<and>
   fixed_offset example_world \<and>
   inactive_cutoff example_world 30 = 1669939200000 \<and>
   map (\<lambda>r. r ''status'') (db (snd (performCleanup example_ctx 30 example_world)) ''authPasskey'') =
     [Some (Str ''revoked''), Some (Str ''active''), Some (Str ''revoked'')]"
proof -
  have h1: "adapter example_ctx = Some mem_adapter" by (simp add: example_ctx_def)
  have h2: "clock_valid example_world_dst"
    by (simp add: clock_valid_def example_world_dst_def maxTimeValue_def)
  have c: "inactive_cutoff example_world_dst 30 = 1676725200000"
    by (simp add: inactive_cutoff_def example_world_dst_def example_zone_def LocalTime_def
        UTC_of_local_def msPerDay_def)
  have h3: "\<bar>inactive_cutoff example_world_dst 30\<bar> \<le> maxTimeValue"
    by (simp add: c maxTimeValue_def)
  have g2: "clock_valid example_world"
    by (simp add: clock_valid_def example_world_def maxTimeValue_def)
  have fo: "fixed_offset example_world"
    by (simp add: fixed_offset_def example_world_def)
  have cu: "inactive_cutoff example_world 30 = 1669939200000"
    by (simp add: inactive_cutoff_def example_world_def LocalTime_def UTC_of_local_def msPerDay_def)
  have g3: "\<bar>inactive_cutoff example_world 30\<bar> \<le> maxTimeValue"
    by (simp add: cu maxTimeValue_def)
  have a: "fst (performCleanup example_ctx 30 example_world_dst) = Inr () \<and>
     length (calls (snd (performCleanup example_ctx 30 example_world_dst))) = 1 \<and>
     map (\<lambda>r. r ''status'') (db (snd (performCleanup example_ctx 30 example_world_dst)) ''authPasskey'') =
       [Some (Str ''revoked''), Some (Str ''active''), Some (Str ''revoked'')] \<and>
     map (\<lambda>r. r ''revokedReason'') (db (snd (performCleanup example_ctx 30 example_world_dst)) ''authPasskey'') =
       [Some (Str ''automatic_inactive''), None, None]"
  proof -
    have e: "db example_world_dst ''authPasskey'' = example_rows_dst" "calls example_world_dst = []"
      by (simp_all add: example_world_dst_def)
    from performCleanup_revokes_inactive[OF h1 h2 h3, unfolded c] show ?thesis
      by (simp add: e example_rows_dst_def inactive_credential_def revoked_credential_def)
  qed
  have b: "map (\<lambda>r. r ''status'') (db (snd (performCleanup example_ctx 30 example_world)) ''authPasskey'') =
     [Some (Str ''revoked''), Some (Str ''active''), Some (Str ''revoked'')]"
  proof -
    have e: "db example_world ''authPasskey'' = example_rows"
      by (simp add: example_world_def)
    from performCleanup_revokes_inactive[OF h1 g2 g3, unfolded cu] show ?thesis
      by (simp add: e example_rows_def inactive_credential_def revoked_credential_def)
  qed
  show ?thesis
    using h1 h2 h3 c g2 g3 fo cu a b by simp
qed

text \<open>
  Claim C7. The cleanup job never throws. For every context, configuration and world:
  a sweep returns; \<open>setupCleanupJob\<close> returns; any number of firings of the interval
  return. When the adapter is missing or has no \<open>updateMany\<close>, the sweep only appends the
  warning to the log (no adapter call, the database untouched). When the store's
  \<open>updateMany\<close> throws \<open>e\<close>, the sweep logs \<open>e\<close> as an error and returns. With sweeps
  enabled, \<open>setupCleanupJob\<close> registers the daily interval whatever the first sweep did.
\<close>

theorem cleanup_never_throws:
  "fst (performCleanup ctx d w) = Inr () \<and>
   (\<exists>r. fst (setupCleanupJob ctx options w) = Inr r) \<and>
   fst (interval_fires ctx d n w) = Inr () \<and>
   (adapter_updateMany ctx = None \<longrightarrow>
      performCleanup ctx d w =
        (Inr (), w\<lparr>logs := logs w @
           [Log_warn ''Skipping cleanup: Database adapter not fully initialized'' []]\<rparr>)) \<and>
   (\<forall>f e db'.
      adapter_updateMany ctx = Some f \<and> clock_valid w \<and>
      \<bar>inactive_cutoff w d\<bar> \<le> maxTimeValue \<and>
      f (cleanup_query (inactive_cutoff w d)
           (clock w (Suc (clock_reads w))) (clock w (Suc (Suc (clock_reads w))))) (db w) = (Inl e, db')
      \<longrightarrow>
      fst (performCleanup ctx d w) = Inr () \<and>
      logs (snd (performCleanup ctx d w)) =
        logs w @ [Log_error ''Cleanup job failed:'' [(''error'', Arg_exn e)]]) \<and>
   (0 < (case inactiveDays options of None \<Rightarrow> 30 | Some d \<Rightarrow> d) \<and>
    disableInterval options \<noteq> Some True \<longrightarrow>
      fst (setupCleanupJob ctx options w) = Inr (Interval_handle (length (intervals w))) \<and>
      intervals (snd (setupCleanupJob ctx options w)) = intervals w @ [86400000])"
proof -
  have store_fails:
    "fst (performCleanup ctx d w) = Inr () \<and>
     logs (snd (performCleanup ctx d w)) =
       logs w @ [Log_error ''Cleanup job failed:'' [(''error'', Arg_exn e)]]"
    if "adapter_updateMany ctx = Some f" and "clock_valid w"
      and "\<bar>inactive_cutoff w d\<bar> \<le> maxTimeValue"
      and "f (cleanup_query (inactive_cutoff w d)
             (clock w (Suc (clock_reads w))) (clock w (Suc (Suc (clock_reads w))))) (db w) = (Inl e, db')"
    for f e db'
    using that(4) by (simp add: performCleanup_sweep[OF that(1,2,3)] Let_def)
  show ?thesis
    using performCleanup_returns[of ctx d w] setup_returns[of ctx options w]
      interval_fires_returns[of ctx d n w] performCleanup_no_adapter[of ctx d w]
      setupCleanupJob_schedules[of options ctx w] store_fails
    by blast
qed

text \<open>
  Two concrete runs: a context without an adapter, and one whose \<open>updateMany\<close> throws.
\<close>

theorem cleanup_never_throws_witness:
  "adapter_updateMany (\<lparr>adapter = None\<rparr> :: mem_db AuthContext) = None \<and>
   performCleanup \<lparr>adapter = None\<rparr> 30 example_world =
     (Inr (), example_world\<lparr>logs := logs example_world @
        [Log_warn ''Skipping cleanup: Database adapter not fully initialized'' []]\<rparr>) \<and>
   adapter_updateMany failing_ctx = Some failing_updateMany \<and>
   clock_valid example_world \<and>
   \<bar>inactive_cutoff example_world 30\<bar> \<le> maxTimeValue \<and>
   failing_updateMany (cleanup_query (inactive_cutoff example_world 30)
      (clock example_world (Suc (clock_reads example_world)))
      (clock example_world (Suc (Suc (clock_reads example_world))))) (db example_world)
     = (Inl (Error ''Database error''), db example_world) \<and>
   fst (performCleanup failing_ctx 30 example_world) = Inr () \<and>
   logs (snd (performCleanup failing_ctx 30 example_world)) =
     logs example_world @ [Log_error ''Cleanup job failed:'' [(''error'', Arg_exn (Error ''Database error''))]] \<and>
   0 < (case inactiveDays \<lparr>inactiveDays = None, disableInterval = None\<rparr> of None \<Rightarrow> 30 | Some d \<Rightarrow> d) \<and>
   disableInterval \<lparr>inactiveDays = None, disableInterval = None\<rparr> \<noteq> Some True \<and>
   fst (setupCleanupJob failing_ctx \<lparr>inactiveDays = None, disableInterval = None\<rparr> example_world) =
     Inr (Interval_handle 0) \<and>
   intervals (snd (setupCleanupJob failing_ctx \<lparr>inactiveDays = None, disableInterval = None\<rparr> example_world)) =
     [86400000]"
proof -
  have a: "adapter_updateMany (\<lparr>adapter = None\<rparr> :: mem_db AuthContext) = None"
    by (simp add: adapter_updateMany_def)
  have b: "adapter_updateMany failing_ctx = Some failing_updateMany"
    by (simp add: adapter_updateMany_def failing_ctx_def)
  have c: "clock_valid example_world"
    by (simp add: clock_valid_def example_world_def maxTimeValue_def)
  have d: "\<bar>inactive_cutoff example_world 30\<bar> \<le> maxTimeValue"
    by (simp add: example_world_def maxTimeValue_def msPerDay_def inactive_cutoff_def LocalTime_def UTC_of_local_def)
  have e: "failing_updateMany (cleanup_query (inactive_cutoff example_world 30)
      (clock example_world (Suc (clock_reads example_world)))
      (clock example_world (Suc (Suc (clock_reads example_world))))) (db example_world)
     = (Inl (Error ''Database error''), db example_world)"
    by (simp add: failing_updateMany_def)
  have f: "0 < (case inactiveDays \<lparr>inactiveDays = None, disableInterval = None\<rparr> of None \<Rightarrow> 30 | Some d \<Rightarrow> d)
     \<and> disableInterval \<lparr>inactiveDays = None, disableInterval = None\<rparr> \<noteq> Some True"
    by simp
  have i: "intervals example_world = []"
    by (simp add: example_world_def)
  show ?thesis
    using a b c d e f i
      cleanup_never_throws[of "\<lparr>adapter = None\<rparr> :: mem_db AuthContext" 30 example_world
        "\<lparr>inactiveDays = None, disableInterval = None\<rparr>" 0]
      cleanup_never_throws[of failing_ctx 30 example_world
        "\<lparr>inactiveDays = None, disableInterval = None\<rparr>" 0]
    by (metis (no_types, lifting) append_Nil list.size(3))
qed

text \<open>
  Claim C8. With \<open>inactiveDays\<close> zero or negative, whatever \<open>disableInterval\<close> is,
  \<open>setupCleanupJob\<close> returns \<open>undefined\<close> and leaves the world as it was: no adapter
  call, no log entry, no interval.
\<close>

theorem setupCleanupJob_disabled_when_nonpositive:
  "inactiveDays options = Some d \<Longrightarrow> d \<le> 0 \<Longrightarrow> setupCleanupJob ctx options w = (Inr Undefined, w)"
  by (simp add: setupCleanupJob_def return_prog_def)

theorem setupCleanupJob_disabled_when_nonpositive_witness:
  "inactiveDays \<lparr>inactiveDays = Some (-10), disableInterval = Some False\<rparr> = Some (-10) \<and> (-10::int) \<le> 0 \<and>
   setupCleanupJob example_ctx \<lparr>inactiveDays = Some (-10), disableInterval = Some False\<rparr> example_world =
     (Inr Undefined, example_world) \<and>
   inactiveDays \<lparr>inactiveDays = Some 0, disableInterval = Some True\<rparr> = Some 0 \<and> (0::int) \<le> 0 \<and>
   setupCleanupJob example_ctx \<lparr>inactiveDays = Some 0, disableInterval = Some True\<rparr> example_world =
     (Inr Undefined, example_world) \<and>
   calls example_world = [] \<and> intervals example_world = []"
  using setupCleanupJob_disabled_when_nonpositive[of "\<lparr>inactiveDays = Some (-10), disableInterval = Some False\<rparr>" "-10" example_ctx example_world]
    setupCleanupJob_disabled_when_nonpositive[of "\<lparr>inactiveDays = Some 0, disableInterval = Some True\<rparr>" 0 example_ctx example_world]
  by (simp add: example_world_def)

text \<open>
  Claim C4, as the code has it. With a positive \<open>inactiveDays\<close> (given, or the default
  30) and \<open>disableInterval = true\<close>, \<open>setupCleanupJob\<close> writes one debug entry to the
  log and returns \<open>null\<close>: it runs no sweep (no adapter call, the database untouched) and
  registers no interval.
\<close>

theorem setupCleanupJob_disableInterval_skips_sweep:
  "0 < (case inactiveDays options of None \<Rightarrow> 30 | Some d \<Rightarrow> d) \<Longrightarrow> disableInterval options = Some True \<Longrightarrow>
   setupCleanupJob ctx options w =
     (Inr Null_result,
      w\<lparr>logs := logs w @ [Log_debug ''Cleanup interval disabled, skipping all cleanup operations'' []]\<rparr>)"
  by (simp add: setupCleanupJob_def prog_defs logger_def Let_def)

theorem setupCleanupJob_disableInterval_skips_sweep_witness:
  "0 < (case inactiveDays \<lparr>inactiveDays = Some 30, disableInterval = Some True\<rparr> of None \<Rightarrow> 30 | Some d \<Rightarrow> d) \<and>
   disableInterval \<lparr>inactiveDays = Some 30, disableInterval = Some True\<rparr> = Some True \<and>
   fst (setupCleanupJob example_ctx \<lparr>inactiveDays = Some 30, disableInterval = Some True\<rparr> example_world) = Inr Null_result \<and>
   calls (snd (setupCleanupJob example_ctx \<lparr>inactiveDays = Some 30, disableInterval = Some True\<rparr> example_world)) = [] \<and>
   intervals (snd (setupCleanupJob example_ctx \<lparr>inactiveDays = Some 30, disableInterval = Some True\<rparr> example_world)) = [] \<and>
   logs (snd (setupCleanupJob example_ctx \<lparr>inactiveDays = Some 30, disableInterval = Some True\<rparr> example_world)) =
     [Log_debug ''Cleanup interval disabled, skipping all cleanup operations'' []]"
  using setupCleanupJob_disableInterval_skips_sweep[of "\<lparr>inactiveDays = Some 30, disableInterval = Some True\<rparr>" example_ctx example_world]
  by (simp add: example_world_def)

text \<open>
  Claim C4 as stated asks for exactly one sweep at startup. In the concrete world, whose
  adapter is initialised (there a sweep makes one \<open>updateMany\<close> call), the number of
  adapter calls after \<open>setupCleanupJob\<close> with \<open>inactiveDays = 30\<close> and
  \<open>disableInterval = true\<close> is not one.
\<close>

theorem setupCleanupJob_disableInterval_counterexample:
  "\<not> length (calls (snd (setupCleanupJob example_ctx \<lparr>inactiveDays = Some 30, disableInterval = Some True\<rparr> example_world))) = 1"
  by (simp add: setupCleanupJob_def prog_defs logger_def Let_def example_world_def)

section \<open>Properties of the challenge endpoint\<close>

lemma base64url_groups_length: "length (base64url_groups xs) = (4 * length xs + 2) div 3"
  by (induction xs rule: base64url_groups.induct) simp_all

lemma base64url_length: "length (base64url bytes) = (4 * length bytes + 2) div 3"
  by (simp add: base64url_def base64url_groups_length)

lemma base64url_char_in_alphabet: "base64url_char n \<in> set base64url_alphabet"
proof -
  have "length base64url_alphabet = 64" by (simp add: base64url_alphabet_def)
  then have "n mod 64 < length base64url_alphabet" by simp
  then show ?thesis unfolding base64url_char_def by (rule nth_mem)
qed

lemma base64url_groups_alphabet: "set (base64url_groups xs) \<subseteq> set base64url_alphabet"
  by (induction xs rule: base64url_groups.induct) (simp_all add: base64url_char_in_alphabet)

lemma base64url_alphabet_distinct: "distinct base64url_alphabet"
  by (simp add: base64url_alphabet_def)

lemma base64url_char_inj:
  assumes "m < 64" and "n < 64" and "base64url_char m = base64url_char n"
  shows "m = n"
proof -
  have l: "length base64url_alphabet = 64" by (simp add: base64url_alphabet_def)
  from assms have "base64url_alphabet ! m = base64url_alphabet ! n"
    by (simp add: base64url_char_def)
  then show ?thesis
    using nth_eq_iff_index_eq[OF base64url_alphabet_distinct, of m n] assms(1,2) l by simp
qed


lemma split_digits:
  fixes x y x' y' k :: nat
  assumes "y < k" and "y' < k" and "x * k + y = x' * k + y'"
  shows "x = x' \<and> y = y'"
proof -
  have "(x * k + y) div k = (x' * k + y') div k" and "(x * k + y) mod k = (x' * k + y') mod k"
    using assms(3) by simp_all
  then show ?thesis using assms(1,2) by simp
qed

lemma join_digits:
  fixes a a' k :: nat
  assumes "a div k = a' div k" and "a mod k = a' mod k"
  shows "a = a'"
  using assms by (metis div_mult_mod_eq)

lemma sextets_3:
  fixes a b c a' b' c' :: nat
  assumes "b < 256" "c < 256" "b' < 256" "c' < 256"
    and "a div 4 = a' div 4"
    and "(a mod 4) * 16 + b div 16 = (a' mod 4) * 16 + b' div 16"
    and "(b mod 16) * 4 + c div 64 = (b' mod 16) * 4 + c' div 64"
    and "c mod 64 = c' mod 64"
  shows "a = a' \<and> b = b' \<and> c = c'"
proof -
  have "b div 16 < 16" "b' div 16 < 16" "c div 64 < 4" "c' div 64 < 4"
    using assms(1-4) by simp_all
  from split_digits[OF this(1,2) assms(6)] split_digits[OF this(3,4) assms(7)]
  have "a mod 4 = a' mod 4" "b div 16 = b' div 16" "b mod 16 = b' mod 16" "c div 64 = c' div 64"
    by simp_all
  then show ?thesis
    using assms(5,8) join_digits by blast
qed

lemma sextets_2:
  fixes a b a' b' :: nat
  assumes "b < 256" "b' < 256"
    and "a div 4 = a' div 4"
    and "(a mod 4) * 16 + b div 16 = (a' mod 4) * 16 + b' div 16"
    and "(b mod 16) * 4 = (b' mod 16) * 4"
  shows "a = a' \<and> b = b'"
proof -
  have "b div 16 < 16" "b' div 16 < 16"
    using assms(1,2) by simp_all
  from split_digits[OF this assms(4)]
  have "a mod 4 = a' mod 4" "b div 16 = b' div 16" by simp_all
  moreover have "b mod 16 = b' mod 16" using assms(5) by simp
  ultimately show ?thesis
    using assms(3) join_digits by blast
qed

lemma sextets_1:
  fixes a a' :: nat
  assumes "a div 4 = a' div 4"
    and "(a mod 4) * 16 = (a' mod 4) * 16"
  shows "a = a'"
proof -
  have "a mod 4 = a' mod 4" using assms(2) by simp
  then show ?thesis using assms(1) join_digits by blast
qed

lemma base64url_groups_inj:
  assumes "length xs = length ys"
    and "\<forall>x \<in> set xs. x < 256" and "\<forall>y \<in> set ys. y < 256"
    and "base64url_groups xs = base64url_groups ys"
  shows "xs = ys"
  using assms
proof (induction xs arbitrary: ys rule: base64url_groups.induct)
  case (1 a b c rest)
  then obtain a' b' c' rest' where ys: "ys = a' # b' # c' # rest'"
    by (metis length_Suc_conv)
  have bounds: "a < 256" "b < 256" "c < 256" "a' < 256" "b' < 256" "c' < 256"
    using "1.prems"(2,3) ys by simp_all
  have s: "a div 4 < 64" "a' div 4 < 64"
    "(a mod 4) * 16 + b div 16 < 64" "(a' mod 4) * 16 + b' div 16 < 64"
    "(b mod 16) * 4 + c div 64 < 64" "(b' mod 16) * 4 + c' div 64 < 64"
    "c mod 64 < 64" "c' mod 64 < 64"
    using bounds by simp_all
  from "1.prems"(4) ys have ch:
    "base64url_char (a div 4) = base64url_char (a' div 4)"
    "base64url_char ((a mod 4) * 16 + b div 16) = base64url_char ((a' mod 4) * 16 + b' div 16)"
    "base64url_char ((b mod 16) * 4 + c div 64) = base64url_char ((b' mod 16) * 4 + c' div 64)"
    "base64url_char (c mod 64) = base64url_char (c' mod 64)"
    and tl: "base64url_groups rest = base64url_groups rest'"
    by simp_all
  have "a = a' \<and> b = b' \<and> c = c'"
    using sextets_3[OF bounds(2,3,5,6)
        base64url_char_inj[OF s(1,2) ch(1)] base64url_char_inj[OF s(3,4) ch(2)]
        base64url_char_inj[OF s(5,6) ch(3)] base64url_char_inj[OF s(7,8) ch(4)]] .
  moreover have "rest = rest'"
    using "1.IH"[of rest'] "1.prems"(1,2,3) ys tl by simp
  ultimately show ?case using ys by simp
next
  case (2 a b)
  then obtain a' b' where ys: "ys = [a', b']"
    by (metis length_0_conv length_Suc_conv)
  have bounds: "a < 256" "b < 256" "a' < 256" "b' < 256"
    using "2.prems"(2,3) ys by simp_all
  have s: "a div 4 < 64" "a' div 4 < 64"
    "(a mod 4) * 16 + b div 16 < 64" "(a' mod 4) * 16 + b' div 16 < 64"
    "(b mod 16) * 4 < 64" "(b' mod 16) * 4 < 64"
    using bounds by simp_all
  from "2.prems"(4) ys have ch:
    "base64url_char (a div 4) = base64url_char (a' div 4)"
    "base64url_char ((a mod 4) * 16 + b div 16) = base64url_char ((a' mod 4) * 16 + b' div 16)"
    "base64url_char ((b mod 16) * 4) = base64url_char ((b' mod 16) * 4)"
    by simp_all
  show ?case
    using sextets_2[OF bounds(2,4)
        base64url_char_inj[OF s(1,2) ch(1)] base64url_char_inj[OF s(3,4) ch(2)]
        base64url_char_inj[OF s(5,6) ch(3)]] ys by simp
next
  case (3 a)
  then obtain a' where ys: "ys = [a']"
    by (metis length_0_conv length_Suc_conv)
  have bounds: "a < 256" "a' < 256"
    using "3.prems"(2,3) ys by simp_all
  have s: "a div 4 < 64" "a' div 4 < 64" "(a mod 4) * 16 < 64" "(a' mod 4) * 16 < 64"
    using bounds by simp_all
  from "3.prems"(4) ys have ch:
    "base64url_char (a div 4) = base64url_char (a' div 4)"
    "base64url_char ((a mod 4) * 16) = base64url_char ((a' mod 4) * 16)"
    by simp_all
  show ?case
    using sextets_1[OF base64url_char_inj[OF s(1,2) ch(1)] base64url_char_inj[OF s(3,4) ch(2)]] ys
    by simp
next
  case 4
  then show ?case by simp
qed

lemma base64url_inj:
  assumes "length xs = length ys" and "base64url xs = base64url ys"
  shows "xs = ys"
proof -
  have lt: "unat w < 256" for w :: "8 word"
    using unsigned_less[of w, where 'a = nat] by simp
  have "map unat xs = map unat ys"
  proof (rule base64url_groups_inj)
    show "length (map unat xs) = length (map unat ys)" using assms(1) by simp
    show "\<forall>x \<in> set (map unat xs). x < 256"
      using lt by auto
    show "\<forall>y \<in> set (map unat ys). y < 256"
      using lt by auto
    show "base64url_groups (map unat xs) = base64url_groups (map unat ys)"
      using assms(2) by (simp add: base64url_def)
  qed
  then show ?thesis
    by (simp add: inj_map_eq_map[OF inj_onI] word_unat_eq_iff)
qed

lemma registration_userId_sources:
  "registration_userId ctx s w = (r, w') \<Longrightarrow> same_sources w w'"
  by (auto simp: registration_userId_def prog_defs logger_def call_findOne_def same_sources_def
      split: option.splits sum.splits prod.splits)

lemma fetch_session_sources:
  "fetch_session f ctx w = (r, w') \<Longrightarrow> same_sources w w'"
  by (auto simp: fetch_session_def prog_defs logger_def same_sources_def
      split: option.splits sum.splits prod.splits)

lemma generate_challenge_result:
  assumes "generate_challenge sc ctx u w = (Inr resp, w')"
  shows "challenge resp = base64url (map (\<lambda>k. entropy w (entropy_used w + k)) [0..<32]) \<and>
     last_create (calls w') =
       Some \<lparr>cr_model = passkeyChallengeModel sc,
             cr_data = challenge_data (idgen w (ids_made w)) u (challenge resp) (body_type (body ctx))
                         (clock w (clock_reads w)) (clock w (clock_reads w) + 5 * 60 * 1000)
                         (registrationOptions (body ctx)),
             forceAllowId = True\<rparr>"
  using assms
  by (auto simp: generate_challenge_def prog_defs logger_def crypto_randomBytes_def new_Date_def
      generateId_def toISOString_def call_create_def Date_plus_ms_def TimeClip_def last_create_def Let_def
      split: option.splits sum.splits prod.splits if_splits)

lemma challenge_catch_throws: "fst (challenge_catch e w) \<noteq> Inr r"
  by (simp add: challenge_catch_def prog_defs logger_def)

lemma try_catch_challenge_Inr:
  assumes "try_catch m challenge_catch w = (Inr resp, w')"
  shows "m w = (Inr resp, w')"
proof (cases "m w")
  case (Pair r s)
  show ?thesis
  proof (cases r)
    case (Inl e)
    with Pair assms have "challenge_catch e s = (Inr resp, w')"
      by (simp add: try_catch_def)
    then have "fst (challenge_catch e s) = Inr resp" by simp
    with challenge_catch_throws show ?thesis by blast
  next
    case (Inr v)
    with Pair assms show ?thesis by (simp add: try_catch_def)
  qed
qed

lemma same_sources_trans: "same_sources w w1 \<Longrightarrow> same_sources w1 w2 \<Longrightarrow> same_sources w w2"
  by (simp add: same_sources_def)

lemma createChallengeEndpoint_success:
  assumes "createChallengeEndpoint sc ctx w = (Inr resp, w')"
  shows "\<exists>u w1. same_sources w w1 \<and> generate_challenge sc ctx u w1 = (Inr resp, w')"
proof -
  from try_catch_challenge_Inr[OF assms[unfolded createChallengeEndpoint_def]]
  obtain u w1 where b: "(if body_type (body ctx) = ''registration''
           then registration_userId ctx (context_session ctx)
           else return_prog (authentication_userId ''anonymous'' ctx)) w = (Inr u, w1)"
    and c: "generate_challenge sc ctx u w1 = (Inr resp, w')"
    by (auto simp: bind_prog_def split: prod.splits sum.splits)
  have "same_sources w w1"
    using b by (auto simp: return_prog_def same_sources_def split: if_splits dest: registration_userId_sources)
  then show ?thesis using c by blast
qed

lemma createChallengeEndpoint_sessionFetcher_success:
  assumes "createChallengeEndpoint_sessionFetcher sc fetcher ctx w = (Inr resp, w')"
  shows "\<exists>u w1. same_sources w w1 \<and> generate_challenge sc ctx u w1 = (Inr resp, w')"
proof -
  from try_catch_challenge_Inr[OF assms[unfolded createChallengeEndpoint_sessionFetcher_def]]
  obtain s w0 u w1 where a: "fetch_session fetcher ctx w = (Inr s, w0)"
    and b: "(if body_type (body ctx) = ''registration''
           then registration_userId ctx s
           else return_prog (authentication_userId ''auto-discovery'' ctx)) w0 = (Inr u, w1)"
    and c: "generate_challenge sc ctx u w1 = (Inr resp, w')"
    by (auto simp: bind_prog_def split: prod.splits sum.splits)
  have "same_sources w w0" using a by (rule fetch_session_sources)
  moreover have "same_sources w0 w1"
    using b by (auto simp: return_prog_def same_sources_def split: if_splits dest: registration_userId_sources)
  ultimately show ?thesis using c same_sources_trans by blast
qed

lemma issued_challenge_properties:
  assumes "same_sources w w1" and "generate_challenge sc ctx u w1 = (Inr resp, w')"
  shows "challenge resp = base64url (map (\<lambda>k. entropy w (entropy_used w + k)) [0..<32]) \<and>
     length (challenge resp) = 43 \<and>
     set (challenge resp) \<subseteq> set base64url_alphabet \<and>
     (\<exists>args. last_create (calls w') = Some args \<and>
        cr_model args = passkeyChallengeModel sc \<and>
        map_of (cr_data args) ''challenge'' = Some (Str (challenge resp)) \<and>
        map_of (cr_data args) ''createdAt'' = Some (IsoTime (clock w (clock_reads w))) \<and>
        map_of (cr_data args) ''expiresAt'' = Some (IsoTime (clock w (clock_reads w) + 5 * 60 * 1000))) \<and>
     (\<forall>bytes. length bytes = 32 \<and> base64url bytes = challenge resp \<longrightarrow>
        bytes = map (\<lambda>k. entropy w (entropy_used w + k)) [0..<32])"
proof -
  note g = generate_challenge_result[OF assms(2)]
  have src: "entropy w1 = entropy w" "entropy_used w1 = entropy_used w"
    "clock w1 = clock w" "clock_reads w1 = clock_reads w"
    using assms(1) by (simp_all add: same_sources_def)
  have c: "challenge resp = base64url (map (\<lambda>k. entropy w (entropy_used w + k)) [0..<32])"
    using g src by simp
  have l: "length (challenge resp) = 43"
    unfolding c by (simp add: base64url_length)
  have a: "set (challenge resp) \<subseteq> set base64url_alphabet"
    unfolding c base64url_def by (rule base64url_groups_alphabet)
  have i: "\<forall>bytes. length bytes = 32 \<and> base64url bytes = challenge resp \<longrightarrow>
        bytes = map (\<lambda>k. entropy w (entropy_used w + k)) [0..<32]"
    unfolding c by (auto intro: base64url_inj)
  have d: "\<exists>args. last_create (calls w') = Some args \<and>
        cr_model args = passkeyChallengeModel sc \<and>
        map_of (cr_data args) ''challenge'' = Some (Str (challenge resp)) \<and>
        map_of (cr_data args) ''createdAt'' = Some (IsoTime (clock w (clock_reads w))) \<and>
        map_of (cr_data args) ''expiresAt'' = Some (IsoTime (clock w (clock_reads w) + 5 * 60 * 1000))"
    using g src by (simp add: challenge_data_def)
  show ?thesis
    using c l a d i by blast
qed

lemma example_entropy_bytes: "map (\<lambda>k. (of_nat (0 + k) :: 8 word)) [0..<32] =
   [0,1,2,3,4,5,6,7,8,9,10,11,12,13,14,15,16,17,18,19,20,21,22,23,24,25,26,27,28,29,30,31]"
  by code_simp

lemma example_base64url: "base64url [0,1,2,3,4,5,6,7,8,9,10,11,12,13,14,15,16,17,18,19,20,21,22,23,24,25,26,27,28,29,30,31]
   = ''AAECAwQFBgcICQoLDA0ODxAREhMUFRYXGBkaGxwdHh8''"
  by (simp add: base64url_def base64url_char_def base64url_alphabet_def)

lemma generate_challenge_mem:
  assumes "context_adapter ctx = mem_adapter"
    and "\<bar>clock w (clock_reads w)\<bar> \<le> maxTimeValue"
    and "\<bar>clock w (clock_reads w) + 5 * 60 * 1000\<bar> \<le> maxTimeValue"
  shows "fst (generate_challenge sc ctx u w) =
       Inr \<lparr>challenge = base64url (map (\<lambda>k. entropy w (entropy_used w + k)) [0..<32])\<rparr> \<and>
     db (snd (generate_challenge sc ctx u w)) =
       (db w)(passkeyChallengeModel sc := db w (passkeyChallengeModel sc) @
          [write_fields (challenge_data (idgen w (ids_made w)) u
              (base64url (map (\<lambda>k. entropy w (entropy_used w + k)) [0..<32]))
              (body_type (body ctx)) (clock w (clock_reads w))
              (clock w (clock_reads w) + 5 * 60 * 1000) (registrationOptions (body ctx))) Map.empty])"
  using assms
  by (simp add: generate_challenge_def prog_defs logger_def crypto_randomBytes_def new_Date_def
      generateId_def toISOString_def call_create_def Date_plus_ms_def TimeClip_def Let_def
      mem_adapter_def mem_create_def)

lemma authentication_challenge_mem:
  assumes "body_type (body ctx) \<noteq> ''registration''"
    and "context_adapter ctx = mem_adapter"
    and "\<bar>clock w (clock_reads w)\<bar> \<le> maxTimeValue"
    and "\<bar>clock w (clock_reads w) + 5 * 60 * 1000\<bar> \<le> maxTimeValue"
  shows "fst (createChallengeEndpoint_sessionFetcher sc fetcher ctx w) =
       Inr \<lparr>challenge = base64url (map (\<lambda>k. entropy w (entropy_used w + k)) [0..<32])\<rparr>"
    and "fst (createChallengeEndpoint sc ctx w) =
       Inr \<lparr>challenge = base64url (map (\<lambda>k. entropy w (entropy_used w + k)) [0..<32])\<rparr>"
proof -
  have g: "fst (generate_challenge sc ctx u w1) =
       Inr \<lparr>challenge = base64url (map (\<lambda>k. entropy w (entropy_used w + k)) [0..<32])\<rparr>"
    if "same_sources w w1" for u w1
    using generate_challenge_mem[of ctx w1 sc u] that assms(2,3,4) by (simp add: same_sources_def)
  obtain s w0 where f: "fetch_session fetcher ctx w = (Inr s, w0)"
    by (cases "fetcher ctx") (simp_all add: fetch_session_def prog_defs logger_def)
  have s0: "same_sources w w0" using f by (rule fetch_session_sources)
  show "fst (createChallengeEndpoint_sessionFetcher sc fetcher ctx w) =
       Inr \<lparr>challenge = base64url (map (\<lambda>k. entropy w (entropy_used w + k)) [0..<32])\<rparr>"
    using assms(1) f g[OF s0, of "authentication_userId ''auto-discovery'' ctx"]
    by (cases "generate_challenge sc ctx (authentication_userId ''auto-discovery'' ctx) w0")
       (simp add: createChallengeEndpoint_sessionFetcher_def try_catch_def bind_prog_def return_prog_def)
  have sw: "same_sources w w" by (simp add: same_sources_def)
  show "fst (createChallengeEndpoint sc ctx w) =
       Inr \<lparr>challenge = base64url (map (\<lambda>k. entropy w (entropy_used w + k)) [0..<32])\<rparr>"
    using assms(1) g[OF sw, of "authentication_userId ''anonymous'' ctx"]
    by (cases "generate_challenge sc ctx (authentication_userId ''anonymous'' ctx) w")
       (simp add: createChallengeEndpoint_def try_catch_def bind_prog_def return_prog_def)
qed

lemma example_authentication_run:
  "fst (createChallengeEndpoint_sessionFetcher example_schemaConfig (\<lambda>c. Inr None)
          (example_challenge_ctx ''authentication'') example_world) =
     Inr \<lparr>challenge = ''AAECAwQFBgcICQoLDA0ODxAREhMUFRYXGBkaGxwdHh8''\<rparr>"
proof -
  have "fst (createChallengeEndpoint_sessionFetcher example_schemaConfig (\<lambda>c. Inr None)
          (example_challenge_ctx ''authentication'') example_world) =
     Inr \<lparr>challenge = base64url (map (\<lambda>k. entropy example_world (entropy_used example_world + k)) [0..<32])\<rparr>"
    by (rule authentication_challenge_mem(1))
       (simp_all add: example_challenge_ctx_def example_world_def maxTimeValue_def)
  also have "map (\<lambda>k. entropy example_world (entropy_used example_world + k)) [0..<32] =
     [0,1,2,3,4,5,6,7,8,9,10,11,12,13,14,15,16,17,18,19,20,21,22,23,24,25,26,27,28,29,30,31]"
    using example_entropy_bytes by (simp add: example_world_def)
  finally show ?thesis by (simp only: example_base64url)
qed

text \<open>
  Claim C3. A request of type \<open>registration\<close> without an authenticated session
  identity fails with the API error \<open>UNAUTHORIZED\<close>, code \<open>SESSION_REQUIRED\<close>, and apart
  from the log the world is as it was: no adapter call is made (no \<open>create\<close>, not even the
  \<open>findOne\<close> of the user) and the database is untouched. This holds for the handler that
  reads \<open>ctx.context.session\<close> and for the one that fetches the session, both when the
  fetch returns a session without identity and when it throws.
\<close>

theorem registration_requires_session:
  assumes "body_type (body ctx) = ''registration''"
  shows
   "(session_user_id (context_session ctx) = None \<longrightarrow>
       createChallengeEndpoint sc ctx w =
         (Inl (APIError ''UNAUTHORIZED'' ''SESSION_REQUIRED'' ''You must be logged in to register a passkey''),
          w\<lparr>logs := logs w @
             [Log_warn ''Registration challenge requires authentication''
                [(''hasSession'', Arg_bool (context_session ctx \<noteq> None))],
              Log_error ''Failed to generate challenge:''
                [(''error'', Arg_exn (APIError ''UNAUTHORIZED'' ''SESSION_REQUIRED''
                                        ''You must be logged in to register a passkey''))]]\<rparr>)) \<and>
    (\<forall>s. fetcher ctx = Inr s \<and> session_user_id s = None \<longrightarrow>
       createChallengeEndpoint_sessionFetcher sc fetcher ctx w =
         (Inl (APIError ''UNAUTHORIZED'' ''SESSION_REQUIRED'' ''You must be logged in to register a passkey''),
          w\<lparr>logs := logs w @
             [Log_warn ''Registration challenge requires authentication''
                [(''hasSession'', Arg_bool (s \<noteq> None))],
              Log_error ''Failed to generate challenge:''
                [(''error'', Arg_exn (APIError ''UNAUTHORIZED'' ''SESSION_REQUIRED''
                                        ''You must be logged in to register a passkey''))]]\<rparr>)) \<and>
    (\<forall>e. fetcher ctx = Inl e \<longrightarrow>
       createChallengeEndpoint_sessionFetcher sc fetcher ctx w =
         (Inl (APIError ''UNAUTHORIZED'' ''SESSION_REQUIRED'' ''You must be logged in to register a passkey''),
          w\<lparr>logs := logs w @
             [Log_debug ''Session fetch failed (acceptable for auth challenges)''
                [(''type'', Arg_str ''registration''), (''error'', Arg_str (exn_message e))],
              Log_warn ''Registration challenge requires authentication''
                [(''hasSession'', Arg_bool False)],
              Log_error ''Failed to generate challenge:''
                [(''error'', Arg_exn (APIError ''UNAUTHORIZED'' ''SESSION_REQUIRED''
                                        ''You must be logged in to register a passkey''))]]\<rparr>))"
  using assms
  by (auto simp add: createChallengeEndpoint_def createChallengeEndpoint_sessionFetcher_def
      fetch_session_def registration_userId_def challenge_catch_def is_APIError_def
      prog_defs logger_def session_user_id_def)

theorem registration_requires_session_witness:
  "body_type (body (example_challenge_ctx ''registration'')) = ''registration'' \<and>
   session_user_id (context_session (example_challenge_ctx ''registration'')) = None \<and>
   fst (createChallengeEndpoint example_schemaConfig (example_challenge_ctx ''registration'') example_world) =
     Inl (APIError ''UNAUTHORIZED'' ''SESSION_REQUIRED'' ''You must be logged in to register a passkey'') \<and>
   calls (snd (createChallengeEndpoint example_schemaConfig (example_challenge_ctx ''registration'') example_world)) = [] \<and>
   db (snd (createChallengeEndpoint example_schemaConfig (example_challenge_ctx ''registration'') example_world)) =
     db example_world \<and>
   (\<lambda>c. Inr (Some \<lparr>user = None\<rparr>) :: exn + session option) (example_challenge_ctx ''registration'') =
     Inr (Some \<lparr>user = None\<rparr>) \<and>
   session_user_id (Some \<lparr>user = None\<rparr>) = None \<and>
   fst (createChallengeEndpoint_sessionFetcher example_schemaConfig (\<lambda>c. Inr (Some \<lparr>user = None\<rparr>))
          (example_challenge_ctx ''registration'') example_world) =
     Inl (APIError ''UNAUTHORIZED'' ''SESSION_REQUIRED'' ''You must be logged in to register a passkey'') \<and>
   calls (snd (createChallengeEndpoint_sessionFetcher example_schemaConfig (\<lambda>c. Inr (Some \<lparr>user = None\<rparr>))
          (example_challenge_ctx ''registration'') example_world)) = [] \<and>
   (\<lambda>c. Inl (Error ''invalid session'') :: exn + session option) (example_challenge_ctx ''registration'') =
     Inl (Error ''invalid session'') \<and>
   fst (createChallengeEndpoint_sessionFetcher example_schemaConfig (\<lambda>c. Inl (Error ''invalid session''))
          (example_challenge_ctx ''registration'') example_world) =
     Inl (APIError ''UNAUTHORIZED'' ''SESSION_REQUIRED'' ''You must be logged in to register a passkey'') \<and>
   calls (snd (createChallengeEndpoint_sessionFetcher example_schemaConfig (\<lambda>c. Inl (Error ''invalid session''))
          (example_challenge_ctx ''registration'') example_world)) = []"
proof -
  have t: "body_type (body (example_challenge_ctx ''registration'')) = ''registration''"
    by (simp add: example_challenge_ctx_def)
  have n: "session_user_id (context_session (example_challenge_ctx ''registration'')) = None"
    "session_user_id (Some \<lparr>user = None\<rparr>) = None"
    by (simp_all add: example_challenge_ctx_def session_user_id_def)
  have c: "calls example_world = []" by (simp add: example_world_def)
  show ?thesis
    using t n c
      registration_requires_session[OF t, where fetcher = "\<lambda>c. Inr (Some \<lparr>user = None\<rparr>)"
        and sc = example_schemaConfig and w = example_world]
      registration_requires_session[OF t, where fetcher = "\<lambda>c. Inl (Error ''invalid session'')"
        and sc = example_schemaConfig and w = example_world]
    by simp
qed

text \<open>
  Claim C9. Whenever either handler returns a response, the response's single field is the
  challenge: the url-safe base64 text (43 characters of the alphabet, no padding) of the
  next 32 bytes of the entropy source; the handler's last adapter call is the \<open>create\<close>
  on the challenge model, whose data hold that challenge, \<open>createdAt\<close> the clock reading
  of the request and \<open>expiresAt\<close> that reading plus \<open>5 * 60 * 1000\<close> milliseconds. The
  challenge determines the 32 bytes: no other 32 bytes have the same text, so all 256 bits
  are in it.
\<close>

theorem issued_challenge_expiry_and_value:
  assumes "createChallengeEndpoint sc ctx w = (Inr resp, w') \<or>
           createChallengeEndpoint_sessionFetcher sc fetcher ctx w = (Inr resp, w')"
  shows "challenge resp = base64url (map (\<lambda>k. entropy w (entropy_used w + k)) [0..<32]) \<and>
     length (challenge resp) = 43 \<and>
     set (challenge resp) \<subseteq> set base64url_alphabet \<and>
     (\<exists>args. last_create (calls w') = Some args \<and>
        cr_model args = passkeyChallengeModel sc \<and>
        map_of (cr_data args) ''challenge'' = Some (Str (challenge resp)) \<and>
        map_of (cr_data args) ''createdAt'' = Some (IsoTime (clock w (clock_reads w))) \<and>
        map_of (cr_data args) ''expiresAt'' = Some (IsoTime (clock w (clock_reads w) + 5 * 60 * 1000))) \<and>
     (\<forall>bytes. length bytes = 32 \<and> base64url bytes = challenge resp \<longrightarrow>
        bytes = map (\<lambda>k. entropy w (entropy_used w + k)) [0..<32])"
proof -
  from assms obtain u w1 where "same_sources w w1" and "generate_challenge sc ctx u w1 = (Inr resp, w')"
    using createChallengeEndpoint_success createChallengeEndpoint_sessionFetcher_success by blast
  then show ?thesis by (rule issued_challenge_properties)
qed

theorem issued_challenge_expiry_and_value_witness:
  "(createChallengeEndpoint example_schemaConfig (example_challenge_ctx ''authentication'') example_world =
      (Inr \<lparr>challenge = ''AAECAwQFBgcICQoLDA0ODxAREhMUFRYXGBkaGxwdHh8''\<rparr>,
       snd (createChallengeEndpoint_sessionFetcher example_schemaConfig (\<lambda>c. Inr None)
              (example_challenge_ctx ''authentication'') example_world)) \<or>
    createChallengeEndpoint_sessionFetcher example_schemaConfig (\<lambda>c. Inr None)
        (example_challenge_ctx ''authentication'') example_world =
      (Inr \<lparr>challenge = ''AAECAwQFBgcICQoLDA0ODxAREhMUFRYXGBkaGxwdHh8''\<rparr>,
       snd (createChallengeEndpoint_sessionFetcher example_schemaConfig (\<lambda>c. Inr None)
              (example_challenge_ctx ''authentication'') example_world))) \<and>
   length ''AAECAwQFBgcICQoLDA0ODxAREhMUFRYXGBkaGxwdHh8'' = 43 \<and>
   (\<exists>args. last_create (calls (snd (createChallengeEndpoint_sessionFetcher example_schemaConfig (\<lambda>c. Inr None)
              (example_challenge_ctx ''authentication'') example_world))) = Some args \<and>
      cr_model args = ''passkeyChallenge'' \<and>
      map_of (cr_data args) ''challenge'' = Some (Str ''AAECAwQFBgcICQoLDA0ODxAREhMUFRYXGBkaGxwdHh8'') \<and>
      map_of (cr_data args) ''createdAt'' = Some (IsoTime 1672531200000) \<and>
      map_of (cr_data args) ''expiresAt'' = Some (IsoTime 1672531500000))"
proof -
  have h: "createChallengeEndpoint_sessionFetcher example_schemaConfig (\<lambda>c. Inr None)
        (example_challenge_ctx ''authentication'') example_world =
      (Inr \<lparr>challenge = ''AAECAwQFBgcICQoLDA0ODxAREhMUFRYXGBkaGxwdHh8''\<rparr>,
       snd (createChallengeEndpoint_sessionFetcher example_schemaConfig (\<lambda>c. Inr None)
              (example_challenge_ctx ''authentication'') example_world))"
    using example_authentication_run by (simp add: prod_eq_iff)
  have e: "clock example_world (clock_reads example_world) = 1672531200000"
    "passkeyChallengeModel example_schemaConfig = ''passkeyChallenge''"
    by (simp_all add: example_world_def example_schemaConfig_def)
  show ?thesis
    using h e issued_challenge_expiry_and_value[OF disjI2[OF h], THEN conjunct2, THEN conjunct2,
        THEN conjunct2, THEN conjunct1]
    by simp
qed

section \<open>Properties of the challenge store and the authentication ceremony\<close>



lemma distinct_values_unique_match:
  assumes "distinct (map challengeValue (challenges st))"
  shows "unique_match (By_value v) ty st"
proof -
  have "distinct (map challengeValue xs) \<Longrightarrow> length (filter (\<lambda>c. challengeValue c = v) xs) \<le> 1"
    for xs :: "Challenge list"
  proof (induction xs)
    case Nil
    then show ?case by simp
  next
    case (Cons y ys)
    then show ?case
      by (auto simp: filter_empty_conv image_iff)
  qed
  from this[OF assms] show ?thesis
    by (simp add: unique_match_def cong: filter_cong)
qed

text \<open>
  Issuing a fresh value and consuming keep the stored challenge values distinct, so a
  challenge value stays a key of at most one stored challenge.
\<close>

lemma issue_keeps_distinct_values:
  assumes "distinct (map challengeValue (challenges st))"
    and "fresh_value \<notin> challengeValue ` set (challenges st)"
  shows "distinct (map challengeValue
           (challenges (snd (ChallengeStore_issue new_id fresh_value userId type_v regOptions now st))))"
  using assms by (simp add: ChallengeStore_issue_def Let_def)

lemma consume_keeps_distinct_values:
  assumes "distinct (map challengeValue (challenges st))"
  shows "distinct (map challengeValue (challenges (snd (ChallengeStore_consume key type_v now st))))"
proof -
  have "distinct (map challengeValue (remove1 ch (challenges st)))" for ch
  proof -
    from assms have d: "distinct (challenges st)" and i: "inj_on challengeValue (set (challenges st))"
      by (simp_all add: distinct_map)
    have "inj_on challengeValue (set (remove1 ch (challenges st)))"
      using i by (rule inj_on_subset) (rule set_remove1_subset)
    with d show ?thesis by (simp add: distinct_map)
  qed
  then show ?thesis
    using assms by (simp add: ChallengeStore_consume_def split: option.split)
qed







text \<open>
  The key of a user and a type designates every pending challenge of that user and
  type. With two of them pending, a second consume with that key returns the other
  challenge, not the one already consumed.
\<close>

lemma second_consume_by_user_key:
  "fst (ChallengeStore_consume (By_user ''user-123'') Authentication 2000 two_pending) =
     Inr first_pending \<and>
   fst (ChallengeStore_consume (By_user ''user-123'') Authentication 2000
         (snd (ChallengeStore_consume (By_user ''user-123'') Authentication 2000 two_pending))) =
     Inr \<lparr>c_id = ''challenge-id-2'', c_userId = ''user-123'', challengeValue = ''value-2'',
           c_type = Authentication, c_createdAt = 1000, c_expiresAt = 301000, c_registrationOptions = None\<rparr>"
  by (simp add: ChallengeStore_consume_def two_pending_def ChallengeStore_issue_def empty_core_def
      first_pending_def Let_def)

lemma consume_keeps_credentials:
  "ChallengeStore_consume key ty now st = (r, st') \<Longrightarrow>
   credentials st' = credentials st \<and> warnings st' = warnings st"
  by (auto simp: ChallengeStore_consume_def split: option.splits if_splits)

lemma resolve_challenge_keeps_credentials:
  assumes "resolve_challenge req cred now st = (r, st')"
  shows "credentials st' = credentials st \<and> warnings st' = warnings st"
proof (cases "req_userId req")
  case (Some u)
  with assms show ?thesis by (simp add: resolve_challenge_def consume_keeps_credentials)
next
  case None
  obtain r0 st0 where c0: "ChallengeStore_consume (By_user (p_userId cred)) Authentication now st = (r0, st0)"
    by (cases "ChallengeStore_consume (By_user (p_userId cred)) Authentication now st")
  note k0 = consume_keeps_credentials[OF c0]
  show ?thesis
  proof (cases "r0 = Inl ChallengeNotFound")
    case True
    with assms None c0 have "ChallengeStore_consume (By_user unresolved) Authentication now st0 = (r, st')"
      by (simp add: resolve_challenge_def)
    from consume_keeps_credentials[OF this] k0 show ?thesis by simp
  next
    case False
    with assms None c0 have "st' = st0"
      by (auto simp: resolve_challenge_def split: sum.splits ceremony_error.splits)
    with k0 show ?thesis by simp
  qed
qed

lemma resolve_credential_Inr:
  "resolve_credential cid st = Inr cred \<Longrightarrow>
   findByCredentialId cid st = Some cred \<and> credentialId cred = cid \<and> status cred = Active"
  by (auto simp: resolve_credential_def findByCredentialId_def find_Some_iff split: option.splits if_splits)

lemma find_updated_credential:
  assumes "find (\<lambda>c. credentialId c = cid) xs = Some cred"
    and "\<And>c. credentialId (f c) = credentialId c"
  shows "find (\<lambda>c. credentialId c = cid) (map (\<lambda>c. if credentialId c = cid then f c else c) xs) = Some (f cred)"
  using assms(1) by (induction xs) (auto simp: assms(2))

lemma findByCredentialId_updated:
  assumes "findByCredentialId cid st = Some cred"
  shows "findByCredentialId cid (updateCounterAndMetadata cid n now merged st) =
     Some (cred\<lparr>counter := n, lastUsed := now, metadata := Some (Json_object merged)\<rparr>)"
  using find_updated_credential[of cid "credentials st" cred
      "\<lambda>c. c\<lparr>counter := n, lastUsed := now, metadata := Some (Json_object merged)\<rparr>"] assms
  by (simp add: findByCredentialId_def updateCounterAndMetadata_def)

lemma existing_metadata_keeps:
  "existing_metadata cred st = (m, st') \<Longrightarrow>
   credentials st' = credentials st \<and> challenges st' = challenges st"
  by (auto simp: existing_metadata_def split: option.splits metadata_blob.splits)

lemma ceremony_after_verification:
  assumes "resolve_credential (req_credentialId req) st = Inr cred"
    and "resolve_challenge req cred now st = (Inr ch, st1)"
    and "verify (req_assertion req) (publicKey cred) (challengeValue ch) rp (counter cred) = Some n"
  shows "AuthenticationCeremony verify issue_session rp now req st =
     (if counter_replay (counter cred) n then (Inl CounterReplayDetected, st1)
      else (Inr \<lparr>session_handle = issue_session (p_userId cred), session_userId = p_userId cred\<rparr>,
            updateCounterAndMetadata (credentialId cred) n now
              (merge_metadata (fst (existing_metadata cred st1)) (req_metadata req) now)
              (snd (existing_metadata cred st1))))"
  using assms by (simp add: AuthenticationCeremony_def split: prod.splits)

lemma example_resolve_credential:
  "resolve_credential (req_credentialId example_request) (example_core c b) = Inr (example_credential c b)"
  by (simp add: resolve_credential_def findByCredentialId_def example_request_def example_core_def
      example_credential_def)

lemma example_resolve_challenge:
  "resolve_challenge example_request (example_credential c b) 1000 (example_core c b) =
     (Inr example_challenge, example_after_challenge c b)"
  by (simp add: resolve_challenge_def ChallengeStore_consume_def example_request_def example_core_def
      example_credential_def example_challenge_def example_after_challenge_def)

text \<open>
  Claim C1. In a ceremony whose credential resolves (stored counter \<open>c\<close>), whose
  challenge is consumed and whose verifier reports the new counter \<open>n\<close>: if
  \<open>n \<le> c\<close> and not both are 0, the ceremony fails with \<open>CounterReplayDetected\<close>, the
  list of credential records is the one before the ceremony and the credential is found
  as it was; if \<open>n = 0\<close> and \<open>c = 0\<close>, the ceremony returns the session and the stored
  counter is still 0.
\<close>

theorem counter_replay_rejected_before_persistence:
  assumes "resolve_credential (req_credentialId req) st = Inr cred"
    and "resolve_challenge req cred now st = (Inr ch, st1)"
    and "verify (req_assertion req) (publicKey cred) (challengeValue ch) rp (counter cred) = Some n"
  shows
   "(n \<le> counter cred \<and> \<not> (n = 0 \<and> counter cred = 0) \<longrightarrow>
       fst (AuthenticationCeremony verify issue_session rp now req st) = Inl CounterReplayDetected \<and>
       credentials (snd (AuthenticationCeremony verify issue_session rp now req st)) = credentials st \<and>
       findByCredentialId (req_credentialId req)
         (snd (AuthenticationCeremony verify issue_session rp now req st)) = Some cred) \<and>
    (n = 0 \<and> counter cred = 0 \<longrightarrow>
       fst (AuthenticationCeremony verify issue_session rp now req st) =
         Inr \<lparr>session_handle = issue_session (p_userId cred), session_userId = p_userId cred\<rparr> \<and>
       map_option counter
         (findByCredentialId (req_credentialId req)
            (snd (AuthenticationCeremony verify issue_session rp now req st))) = Some 0)"
proof -
  note run = ceremony_after_verification[where verify = verify and rp = rp and n = n
      and issue_session = issue_session, OF assms]
  note rc = resolve_credential_Inr[OF assms(1)]
  note keep = resolve_challenge_keeps_credentials[OF assms(2)]
  have found1: "findByCredentialId (req_credentialId req) st1 = Some cred"
    using rc keep by (simp add: findByCredentialId_def)
  have replay: "fst (AuthenticationCeremony verify issue_session rp now req st) = Inl CounterReplayDetected \<and>
       credentials (snd (AuthenticationCeremony verify issue_session rp now req st)) = credentials st \<and>
       findByCredentialId (req_credentialId req)
         (snd (AuthenticationCeremony verify issue_session rp now req st)) = Some cred"
    if "n \<le> counter cred" and "\<not> (n = 0 \<and> counter cred = 0)"
    using that run keep found1 by (simp add: counter_replay_def)
  have zero: "fst (AuthenticationCeremony verify issue_session rp now req st) =
         Inr \<lparr>session_handle = issue_session (p_userId cred), session_userId = p_userId cred\<rparr> \<and>
       map_option counter
         (findByCredentialId (req_credentialId req)
            (snd (AuthenticationCeremony verify issue_session rp now req st))) = Some 0"
    if "n = 0" and "counter cred = 0"
  proof -
    obtain m st2 where em: "existing_metadata cred st1 = (m, st2)"
      by (cases "existing_metadata cred st1")
    have "findByCredentialId (credentialId cred) st2 = Some cred"
      using existing_metadata_keeps[OF em] found1 rc by (simp add: findByCredentialId_def)
    from findByCredentialId_updated[OF this] that run em rc
    show ?thesis by (simp add: counter_replay_def)
  qed
  show ?thesis using replay zero by blast
qed

theorem counter_replay_rejected_before_persistence_witness:
  "resolve_credential (req_credentialId example_request) (example_core 5 None) = Inr (example_credential 5 None) \<and>
   resolve_challenge example_request (example_credential 5 None) 1000 (example_core 5 None) =
     (Inr example_challenge, example_after_challenge 5 None) \<and>
   (\<lambda>a k c r s. Some 3 :: nat option) (req_assertion example_request) (publicKey (example_credential 5 None))
       (challengeValue example_challenge) example_rp (counter (example_credential 5 None)) = Some 3 \<and>
   (3::nat) \<le> counter (example_credential 5 None) \<and>
   fst (AuthenticationCeremony (\<lambda>a k c r s. Some 3) (\<lambda>u. ''test-session-token'') example_rp 1000
          example_request (example_core 5 None)) = Inl CounterReplayDetected \<and>
   findByCredentialId ''test-credential-id''
     (snd (AuthenticationCeremony (\<lambda>a k c r s. Some 3) (\<lambda>u. ''test-session-token'') example_rp 1000
          example_request (example_core 5 None))) = Some (example_credential 5 None) \<and>
   fst (AuthenticationCeremony (\<lambda>a k c r s. Some 5) (\<lambda>u. ''test-session-token'') example_rp 1000
          example_request (example_core 5 None)) = Inl CounterReplayDetected \<and>
   resolve_credential (req_credentialId example_request) (example_core 0 None) = Inr (example_credential 0 None) \<and>
   resolve_challenge example_request (example_credential 0 None) 1000 (example_core 0 None) =
     (Inr example_challenge, example_after_challenge 0 None) \<and>
   counter (example_credential 0 None) = 0 \<and>
   fst (AuthenticationCeremony (\<lambda>a k c r s. Some 0) (\<lambda>u. ''test-session-token'') example_rp 1000
          example_request (example_core 0 None)) =
     Inr \<lparr>session_handle = ''test-session-token'', session_userId = ''user-123''\<rparr> \<and>
   map_option counter (findByCredentialId ''test-credential-id''
     (snd (AuthenticationCeremony (\<lambda>a k c r s. Some 0) (\<lambda>u. ''test-session-token'') example_rp 1000
          example_request (example_core 0 None)))) = Some 0"
proof -
  have e: "req_credentialId example_request = ''test-credential-id''"
    "counter (example_credential 5 None) = 5" "counter (example_credential 0 None) = 0"
    "p_userId (example_credential 0 None) = ''user-123''"
    by (simp_all add: example_request_def example_credential_def)
  show ?thesis
    using e example_resolve_credential[of 5 None] example_resolve_challenge[of 5 None]
      example_resolve_credential[of 0 None] example_resolve_challenge[of 0 None]
      counter_replay_rejected_before_persistence[OF example_resolve_credential[of 5 None]
        example_resolve_challenge[of 5 None], where verify = "\<lambda>a k c r s. Some 3" and n = 3
        and rp = example_rp and issue_session = "\<lambda>u. ''test-session-token''"]
      counter_replay_rejected_before_persistence[OF example_resolve_credential[of 5 None]
        example_resolve_challenge[of 5 None], where verify = "\<lambda>a k c r s. Some 5" and n = 5
        and rp = example_rp and issue_session = "\<lambda>u. ''test-session-token''"]
      counter_replay_rejected_before_persistence[OF example_resolve_credential[of 0 None]
        example_resolve_challenge[of 0 None], where verify = "\<lambda>a k c r s. Some 0" and n = 0
        and rp = example_rp and issue_session = "\<lambda>u. ''test-session-token''"]
    by simp
qed

lemma merge_metadata_empty:
  "dom (merge_metadata Map.empty supplied now) =
     insert ''lastAuthenticationAt'' (case supplied of None \<Rightarrow> {} | Some obj \<Rightarrow> dom obj) \<and>
   merge_metadata Map.empty supplied now ''lastAuthenticationAt'' = Some (IsoTime now) \<and>
   (\<forall>k. k \<noteq> ''lastAuthenticationAt'' \<longrightarrow>
      merge_metadata Map.empty supplied now k = (case supplied of None \<Rightarrow> None | Some obj \<Rightarrow> obj k))"
  by (cases supplied) (simp_all add: merge_metadata_def)

text \<open>
  Claim C5, as the model has it. In a ceremony that passes the replay check and whose
  credential has no stored metadata or stored metadata that does not parse, the ceremony
  returns the session; the persisted metadata is the object with exactly the fields of
  the request and \<open>lastAuthenticationAt\<close>, the latter being the time of the ceremony
  and every other field having the request's value; a warning is recorded when the
  stored metadata did not parse, and none when there was no stored metadata.
\<close>

theorem unusable_metadata_does_not_abort:
  assumes "resolve_credential (req_credentialId req) st = Inr cred"
    and "resolve_challenge req cred now st = (Inr ch, st1)"
    and "verify (req_assertion req) (publicKey cred) (challengeValue ch) rp (counter cred) = Some n"
    and "\<not> counter_replay (counter cred) n"
    and "metadata cred = None \<or> metadata cred = Some (Unparseable t)"
  shows
   "fst (AuthenticationCeremony verify issue_session rp now req st) =
      Inr \<lparr>session_handle = issue_session (p_userId cred), session_userId = p_userId cred\<rparr> \<and>
    map_option metadata
      (findByCredentialId (req_credentialId req)
         (snd (AuthenticationCeremony verify issue_session rp now req st))) =
      Some (Some (Json_object (merge_metadata Map.empty (req_metadata req) now))) \<and>
    dom (merge_metadata Map.empty (req_metadata req) now) =
      insert ''lastAuthenticationAt'' (case req_metadata req of None \<Rightarrow> {} | Some obj \<Rightarrow> dom obj) \<and>
    merge_metadata Map.empty (req_metadata req) now ''lastAuthenticationAt'' = Some (IsoTime now) \<and>
    (\<forall>k. k \<noteq> ''lastAuthenticationAt'' \<longrightarrow>
       merge_metadata Map.empty (req_metadata req) now k =
         (case req_metadata req of None \<Rightarrow> None | Some obj \<Rightarrow> obj k)) \<and>
    warnings (snd (AuthenticationCeremony verify issue_session rp now req st)) =
      warnings st @
        (case metadata cred of
           Some (Unparseable x) \<Rightarrow>
             [(''Failed to parse existing passkey metadata, resetting:'', credentialId cred)]
         | _ \<Rightarrow> [])"
proof -
  note run = ceremony_after_verification[where verify = verify and rp = rp and n = n
      and issue_session = issue_session, OF assms(1,2,3)]
  note rc = resolve_credential_Inr[OF assms(1)]
  note keep = resolve_challenge_keeps_credentials[OF assms(2)]
  have found1: "findByCredentialId (credentialId cred) st1 = Some cred"
    using rc keep by (simp add: findByCredentialId_def)
  have em: "existing_metadata cred st1 =
     (Map.empty, st1\<lparr>warnings := warnings st @
        (case metadata cred of
           Some (Unparseable x) \<Rightarrow>
             [(''Failed to parse existing passkey metadata, resetting:'', credentialId cred)]
         | _ \<Rightarrow> [])\<rparr>)"
    using assms(5) keep by (auto simp: existing_metadata_def)
  have found2: "findByCredentialId (credentialId cred) (snd (existing_metadata cred st1)) = Some cred"
    using found1 by (simp add: em findByCredentialId_def)
  have a: "fst (AuthenticationCeremony verify issue_session rp now req st) =
      Inr \<lparr>session_handle = issue_session (p_userId cred), session_userId = p_userId cred\<rparr>"
    using run assms(4) by simp
  have b: "map_option metadata
      (findByCredentialId (req_credentialId req)
         (snd (AuthenticationCeremony verify issue_session rp now req st))) =
      Some (Some (Json_object (merge_metadata Map.empty (req_metadata req) now)))"
    using run assms(4) rc findByCredentialId_updated[OF found2] by (simp add: em)
  have c: "warnings (snd (AuthenticationCeremony verify issue_session rp now req st)) =
      warnings st @
        (case metadata cred of
           Some (Unparseable x) \<Rightarrow>
             [(''Failed to parse existing passkey metadata, resetting:'', credentialId cred)]
         | _ \<Rightarrow> [])"
    using run assms(4) by (simp add: em updateCounterAndMetadata_def)
  show ?thesis
    using a b c merge_metadata_empty[of "req_metadata req" now] by simp
qed

theorem unusable_metadata_does_not_abort_witness:
  "resolve_credential (req_credentialId example_request)
      (example_core 0 (Some (Unparseable ''not-valid-json''))) =
     Inr (example_credential 0 (Some (Unparseable ''not-valid-json''))) \<and>
   resolve_challenge example_request (example_credential 0 (Some (Unparseable ''not-valid-json''))) 1000
      (example_core 0 (Some (Unparseable ''not-valid-json''))) =
     (Inr example_challenge, example_after_challenge 0 (Some (Unparseable ''not-valid-json''))) \<and>
   \<not> counter_replay (counter (example_credential 0 (Some (Unparseable ''not-valid-json'')))) 1 \<and>
   metadata (example_credential 0 (Some (Unparseable ''not-valid-json''))) =
     Some (Unparseable ''not-valid-json'') \<and>
   fst (AuthenticationCeremony (\<lambda>a k c r s. Some 1) (\<lambda>u. ''test-session-token'') example_rp 1000
          example_request (example_core 0 (Some (Unparseable ''not-valid-json'')))) =
     Inr \<lparr>session_handle = ''test-session-token'', session_userId = ''user-123''\<rparr> \<and>
   warnings (snd (AuthenticationCeremony (\<lambda>a k c r s. Some 1) (\<lambda>u. ''test-session-token'') example_rp 1000
          example_request (example_core 0 (Some (Unparseable ''not-valid-json''))))) =
     [(''Failed to parse existing passkey metadata, resetting:'', ''test-credential-id'')] \<and>
   dom (merge_metadata Map.empty (req_metadata example_request) 1000) =
     {''lastAuthenticationAt'', ''lastLocation'', ''appVersion''} \<and>
   merge_metadata Map.empty (req_metadata example_request) 1000 ''lastLocation'' = Some (Str ''mobile-app'') \<and>
   merge_metadata Map.empty (req_metadata example_request) 1000 ''lastAuthenticationAt'' = Some (IsoTime 1000)"
proof -
  let ?b = "Some (Unparseable ''not-valid-json'')"
  have e: "counter (example_credential 0 ?b) = 0" "metadata (example_credential 0 ?b) = ?b"
    "p_userId (example_credential 0 ?b) = ''user-123''"
    "credentialId (example_credential 0 ?b) = ''test-credential-id''"
    "warnings (example_core 0 ?b) = []"
    "req_metadata example_request =
       Some [''lastLocation'' \<mapsto> Str ''mobile-app'', ''appVersion'' \<mapsto> Str ''1.0.0'']"
    by (simp_all add: example_credential_def example_core_def example_request_def)
  have r: "\<not> counter_replay (counter (example_credential 0 ?b)) 1"
    by (simp add: counter_replay_def e)
  have m: "metadata (example_credential 0 ?b) = None \<or>
           metadata (example_credential 0 ?b) = Some (Unparseable ''not-valid-json'')"
    by (simp add: e)
  have d: "dom (merge_metadata Map.empty (req_metadata example_request) 1000) =
     {''lastAuthenticationAt'', ''lastLocation'', ''appVersion''}"
    "merge_metadata Map.empty (req_metadata example_request) 1000 ''lastLocation'' = Some (Str ''mobile-app'')"
    "merge_metadata Map.empty (req_metadata example_request) 1000 ''lastAuthenticationAt'' = Some (IsoTime 1000)"
    by (auto simp add: e merge_metadata_def)
  show ?thesis
    using e r d example_resolve_credential[of 0 ?b] example_resolve_challenge[of 0 ?b]
      unusable_metadata_does_not_abort[OF example_resolve_credential[of 0 ?b]
        example_resolve_challenge[of 0 ?b] _ r m, where verify = "\<lambda>a k c r s. Some 1"
        and rp = example_rp and issue_session = "\<lambda>u. ''test-session-token''"]
    by simp
qed

text \<open>
  Claim C5 as stated has a warning recorded for absent metadata too. With a credential
  whose metadata is \<open>null\<close> the ceremony succeeds and no warning has been recorded, as the
  endpoint's test of null metadata expects.
\<close>

theorem null_metadata_warning_counterexample:
  "metadata (example_credential 0 None) = None \<and>
   fst (AuthenticationCeremony (\<lambda>a k c r s. Some 1) (\<lambda>u. ''test-session-token'') example_rp 1000
          example_request (example_core 0 None)) =
     Inr \<lparr>session_handle = ''test-session-token'', session_userId = ''user-123''\<rparr> \<and>
   warnings (snd (AuthenticationCeremony (\<lambda>a k c r s. Some 1) (\<lambda>u. ''test-session-token'') example_rp 1000
          example_request (example_core 0 None))) = []"
proof -
  have "(\<lambda>a k c r s. Some 1 :: nat option) (req_assertion example_request)
      (publicKey (example_credential 0 None)) (challengeValue example_challenge) example_rp
      (counter (example_credential 0 None)) = Some 1"
    by simp
  from ceremony_after_verification[where verify = "\<lambda>a k c r s. Some 1" and rp = example_rp and n = 1
      and issue_session = "\<lambda>u. ''test-session-token''",
      OF example_resolve_credential[of 0 None] example_resolve_challenge[of 0 None] this]
  show ?thesis
    by (simp add: counter_replay_def existing_metadata_def updateCounterAndMetadata_def
        example_credential_def example_after_challenge_def)
qed

end
